theory Spec2Isabelle
  imports Main "HOL-Library.Log_Nat"
begin

section \<open>Payment reconciliation of the wedding-services backend\<close>

text \<open>
  A shallow embedding of \<^verbatim>\<open>src/controllers/client/payment.js\<close>: the three request
  handlers \<^verbatim>\<open>initiatePayment\<close>, \<^verbatim>\<open>verifyPayment\<close> and \<^verbatim>\<open>handleWebhook\<close>, over
  the tables of \<^verbatim>\<open>src/prisma/migrations/20250513132839_/migration.sql\<close>.
  A handler is a function from the environment (gateway, mail transport, clock, identifier
  generators, webhook secret), the database and the request to the response, the new
  database and the list of outbound calls it made, in order.
\<close>

subsection \<open>Strings\<close>

text \<open>
  \<^verbatim>\<open>String.prototype.toLowerCase\<close> on the Latin letters. The four words the handlers
  compare with consist of the letters a, c, d, e, f, g, i, l, n, p, s, u; no character
  outside \<open>A..Z\<close> lower-cases to one of them.
\<close>

definition lower_char :: "char \<Rightarrow> char" where
  "lower_char c =
     (if 65 \<le> (of_char c :: nat) \<and> (of_char c :: nat) \<le> 90
      then char_of ((of_char c :: nat) + 32) else c)"

definition toLowerCase :: "string \<Rightarrow> string" where
  "toLowerCase s = map lower_char s"

subsection \<open>Numbers\<close>

text \<open>
  A JavaScript number is an IEEE-754 binary64 value. The finite ones are rationals, and
  an arithmetic operation returns the exact result rounded to the nearest binary64 value,
  ties to the even significand (53 bits; below \<^verbatim>\<open>2^-1022\<close> the spacing stays
  \<^verbatim>\<open>2^-1074\<close>). The handlers only multiply a finite amount by \<^verbatim>\<open>0.1\<close> and
  \<^verbatim>\<open>0.9\<close>, which cannot overflow, so infinities and NaN are not represented.
\<close>

type_synonym number = rat

definition pow2 :: "int \<Rightarrow> rat" where
  "pow2 e = (if 0 \<le> e then 2 ^ nat e else 1 / 2 ^ nat (- e))"

definition round_half_even :: "rat \<Rightarrow> int" where
  "round_half_even q =
     (let f = \<lfloor>q\<rfloor>; r = q - of_int f
      in if r < 1 / 2 then f else if 1 / 2 < r then f + 1
         else if even f then f else f + 1)"

text \<open>For \<open>q > 0\<close>, the exponent \<open>e\<close> with \<open>pow2 e \<le> q < pow2 (e + 1)\<close>.\<close>

definition floor_log2 :: "rat \<Rightarrow> int" where
  "floor_log2 q =
     (case quotient_of q of (n, d) \<Rightarrow>
        let k = bitlen n - bitlen d in if pow2 k \<le> q then k else k - 1)"

definition to_double :: "rat \<Rightarrow> number" where
  "to_double q =
     (if q = 0 then 0
      else let e = max (floor_log2 \<bar>q\<bar>) (- 1022); ulp = pow2 (e - 52)
           in sgn q * of_int (round_half_even (\<bar>q\<bar> / ulp)) * ulp)"

text \<open>The operator \<^verbatim>\<open>*\<close> on numbers, and the two literals of \<^verbatim>\<open>initiatePayment\<close>.\<close>

definition js_mul :: "number \<Rightarrow> number \<Rightarrow> number" where
  "js_mul a b = to_double (a * b)"

definition lit_0_1 :: number where
  "lit_0_1 = to_double (1 / 10)"

definition lit_0_9 :: number where
  "lit_0_9 = to_double (9 / 10)"

subsection \<open>Enumerations of the schema\<close>

datatype payment_status = PENDING | COMPLETED | FAILED | REFUNDED

datatype booking_status = Booking_PENDING | CONFIRMED | Booking_COMPLETED | CANCELLED

subsection \<open>Mapping the gateway's status vocabulary\<close>

text \<open>The \<^verbatim>\<open>switch (status.toLowerCase())\<close> of \<^verbatim>\<open>verifyPayment\<close> (lines 180-194).\<close>

definition verifyPayment_paymentStatus :: "string \<Rightarrow> payment_status" where
  "verifyPayment_paymentStatus status =
     (let s = toLowerCase status in
      if s = ''success'' then COMPLETED
      else if s = ''failed'' then FAILED
      else if s = ''fail'' then FAILED
      else if s = ''pending'' then PENDING
      else FAILED)"

text \<open>The \<^verbatim>\<open>switch (status.toLowerCase())\<close> of \<^verbatim>\<open>handleWebhook\<close> (lines 352-367).\<close>

definition handleWebhook_paymentStatus :: "string \<Rightarrow> payment_status" where
  "handleWebhook_paymentStatus status =
     (let s = toLowerCase status in
      if s = ''success'' then COMPLETED
      else if s = ''failed'' then FAILED
      else if s = ''fail'' then FAILED
      else if s = ''pending'' then PENDING
      else FAILED)"

subsection \<open>Tables\<close>

text \<open>
  The rows carry the columns the handlers read or write. A table is the list of its rows
  in the order the database scans them; the row with a given primary key is the first one
  with that key (a primary key names at most one). The required relations
  \<^verbatim>\<open>Booking.serviceId\<close>, \<^verbatim>\<open>Service.vendorId\<close> are foreign keys that cannot dangle, so
  a booking row carries \<^verbatim>\<open>booking.service.vendor.id\<close> directly. Names, e-mail addresses,
  dates and URLs only fill in message texts and are left out.
\<close>

record client =
  c_id :: string
  c_userId :: string

record booking =
  b_id :: string
  b_clientId :: string
  b_service_vendor_id :: string
  b_status :: booking_status

record vendor =
  v_id :: string
  v_userId :: string
  v_chapaSubaccountId :: "string option"

record chapaSubaccount =
  sub_accountId :: string
  sub_type :: string

record payment =
  p_id :: string
  p_amount :: number
  p_status :: payment_status
  p_method :: string
  p_transactionId :: "string option"
  p_bookingId :: "string option"
  p_userId :: string
  p_recipientId :: string
  p_clientId :: "string option"
  p_vendorId :: "string option"
  p_adminSplit :: "number option"
  p_vendorSplit :: "number option"
  p_createdAt :: nat
  p_updatedAt :: nat

record db =
  clients :: "client list"
  bookings :: "booking list"
  vendors :: "vendor list"
  chapaSubaccounts :: "chapaSubaccount list"
  payments :: "payment list"

text \<open>\<^verbatim>\<open>prisma.<table>.update({ where: { id }, data })\<close>: the row with the key is rewritten.\<close>

fun update_first :: "('a \<Rightarrow> bool) \<Rightarrow> ('a \<Rightarrow> 'a) \<Rightarrow> 'a list \<Rightarrow> 'a list" where
  "update_first P f [] = []"
| "update_first P f (x # xs) = (if P x then f x # xs else x # update_first P f xs)"

definition payment_update :: "string \<Rightarrow> (payment \<Rightarrow> payment) \<Rightarrow> db \<Rightarrow> db" where
  "payment_update i f d = d\<lparr>payments := update_first (\<lambda>p. p_id p = i) f (payments d)\<rparr>"

definition booking_update :: "string \<Rightarrow> (booking \<Rightarrow> booking) \<Rightarrow> db \<Rightarrow> db" where
  "booking_update i f d = d\<lparr>bookings := update_first (\<lambda>b. b_id b = i) f (bookings d)\<rparr>"

text \<open>\<^verbatim>\<open>prisma.payment.findUnique({ where: { id } })\<close>.\<close>

definition payment_findUnique :: "db \<Rightarrow> string \<Rightarrow> payment option" where
  "payment_findUnique d i = find (\<lambda>p. p_id p = i) (payments d)"

text \<open>\<^verbatim>\<open>prisma.booking.findUnique({ where: { id } })\<close>.\<close>

definition booking_findUnique :: "db \<Rightarrow> string \<Rightarrow> booking option" where
  "booking_findUnique d i = find (\<lambda>b. b_id b = i) (bookings d)"

text \<open>
  \<^verbatim>\<open>include: { booking: ... }\<close> on a payment: the optional relation over
  \<^verbatim>\<open>Payment.bookingId\<close>, \<^verbatim>\<open>null\<close> when the payment has no booking.
\<close>

definition include_booking :: "db \<Rightarrow> payment \<Rightarrow> booking option" where
  "include_booking d p =
     (case p_bookingId p of None \<Rightarrow> None | Some i \<Rightarrow> booking_findUnique d i)"

subsection \<open>Requests, responses and the outside world\<close>

text \<open>
  Body fields are strings or absent, the amount a finite number or absent; \<open>ir_user_id\<close>
  and \<open>vr_user_id\<close> are \<^verbatim>\<open>req.user.id\<close> of the authenticated caller. \<open>wr_payload\<close>
  is the body of the webhook call as it is sent; \<^verbatim>\<open>express.json()\<close> parses it into
  \<^verbatim>\<open>req.body\<close>, of which the handler reads \<^verbatim>\<open>tx_ref\<close>, \<^verbatim>\<open>status\<close> and
  \<open>wr_body\<close>, the text \<^verbatim>\<open>JSON.stringify(req.body)\<close> that line 325 computes the digest of.
\<close>

record initiate_request =
  ir_amount :: "number option"
  ir_vendorId :: "string option"
  ir_bookingId :: "string option"
  ir_user_id :: string
  ir_user_email :: string

record verify_request =
  vr_paymentId :: "string option"
  vr_tx_ref :: "string option"
  vr_user_id :: string

record webhook_request =
  wr_chapa_signature :: "string option"
  wr_payload :: string
  wr_body :: string
  wr_tx_ref :: "string option"
  wr_status :: "string option"

text \<open>The body of \<^verbatim>\<open>POST /transaction/initialize\<close>: the split is a list of (subaccount, share).\<close>

record initialize_body =
  ti_amount :: number
  ti_currency :: string
  ti_email :: string
  ti_tx_ref :: string
  ti_split :: "(string \<times> nat) list"

text \<open>
  What \<^verbatim>\<open>chapa.post\<close> does: it throws, or it returns a response whose
  \<^verbatim>\<open>response.data.data\<close> is absent (reading \<^verbatim>\<open>checkout_url\<close> then throws a TypeError) or
  carries a \<^verbatim>\<open>checkout_url\<close>, possibly undefined.
\<close>

datatype initialize_reply =
  Initialize_throws
| Initialize_no_data
| Initialize_data "string option"

text \<open>
  What \<^verbatim>\<open>chapa.get\<close> does: it throws, or it returns \<^verbatim>\<open>{ status, data }\<close>. The status
  is \<open>None\<close> when the reply has no string there (\<^verbatim>\<open>status.toLowerCase()\<close> then throws a
  TypeError); the data are opaque.
\<close>

datatype verify_reply =
  Verify_throws
| Verify_returns "string option" string

text \<open>
  Outbound calls, in the order they are issued. The two notifier calls carry the payment
  identifier (the first only), the booking identifier and the vendor identifier.
\<close>

datatype outbound =
  Chapa_initialize initialize_body
| Chapa_verify string
| PaymentCompletionToVendor string string string
| NewBookingToVendor string string

record env =
  chapa_post :: "initialize_body \<Rightarrow> initialize_reply"
  chapa_get :: "string \<Rightarrow> verify_reply"
  sendEmail :: "outbound \<Rightarrow> bool"
  now :: nat
  generated_id :: string
  uuid :: string
  CHAPA_WEBHOOK_SECRET :: "string option"
  hmac_sha256_hex :: "string \<Rightarrow> string \<Rightarrow> string"

text \<open>
  \<open>sendEmail e\<close> tells whether the mail transport accepts the message (\<open>False\<close>: the
  notifier call rejects). \<open>now\<close> is the clock, \<open>generated_id\<close> the primary key the ORM
  generates for a new payment, \<open>uuid\<close> the value of \<^verbatim>\<open>uuid()\<close>, and
  \<open>hmac_sha256_hex secret text\<close> the hex digest
  \<^verbatim>\<open>crypto.createHmac("sha256", secret).update(text).digest("hex")\<close>.
\<close>

record verify_json =
  vj_paymentId :: string
  vj_status :: payment_status
  vj_amount :: number
  vj_createdAt :: nat
  vj_updatedAt :: nat
  vj_booking :: "(string \<times> booking_status) option"
  vj_chapaData :: string

text \<open>
  A handler ends in \<^verbatim>\<open>res.status(200).json(...)\<close>, in \<^verbatim>\<open>res.status(c).send(text)\<close>, or
  in \<^verbatim>\<open>res.status(c); throw new Error(message)\<close>, which \<^verbatim>\<open>asyncHandler\<close> hands to the error
  middleware with the status already set.
\<close>

datatype response =
  Json_initiated "string option" string string
| Json_verified verify_json
| Send nat string
| Throw nat string

fun statusCode :: "response \<Rightarrow> nat" where
  "statusCode (Json_initiated url pid ref) = 200"
| "statusCode (Json_verified j) = 200"
| "statusCode (Send c t) = c"
| "statusCode (Throw c m) = c"

type_synonym outcome = "response \<times> db \<times> outbound list"

subsection \<open>initiatePayment\<close>

text \<open>
  Lines 9-141. The checks of lines 13-60 leave the database alone; line 63 creates the
  payment row; the \<^verbatim>\<open>try\<close> block of lines 79-125 calls the gateway once, stores the
  transaction reference and answers; its \<^verbatim>\<open>catch\<close> (lines 126-140) marks the row FAILED.
\<close>

text \<open>The row that \<^verbatim>\<open>prisma.payment.create\<close> inserts at line 63.\<close>

definition created_payment ::
  "env \<Rightarrow> string \<Rightarrow> number \<Rightarrow> string \<Rightarrow> string \<Rightarrow> client \<Rightarrow> vendor \<Rightarrow> payment" where
  "created_payment e userId amount vendorId bookingId client vendor =
     \<lparr>p_id = generated_id e, p_amount = amount, p_status = PENDING,
      p_method = ''CHAPA'', p_transactionId = None, p_bookingId = Some bookingId,
      p_userId = userId, p_recipientId = v_userId vendor,
      p_clientId = Some (c_id client), p_vendorId = Some vendorId,
      p_adminSplit = Some (js_mul amount lit_0_1),
      p_vendorSplit = Some (js_mul amount lit_0_9),
      p_createdAt = now e, p_updatedAt = now e\<rparr>"

text \<open>The transaction reference of line 80 and the request of lines 93-113.\<close>

definition make_tx_ref :: "env \<Rightarrow> payment \<Rightarrow> string" where
  "make_tx_ref e payment = ''payment-'' @ p_id payment @ ''-'' @ uuid e"

definition initialize_request ::
  "initiate_request \<Rightarrow> number \<Rightarrow> string \<Rightarrow> chapaSubaccount \<Rightarrow> string \<Rightarrow> initialize_body" where
  "initialize_request req amount tx_ref adminAccount subaccountId =
     \<lparr>ti_amount = amount, ti_currency = ''ETB'', ti_email = ir_user_email req,
      ti_tx_ref = tx_ref,
      ti_split = [(sub_accountId adminAccount, 10), (subaccountId, 90)]\<rparr>"

definition initiatePayment :: "env \<Rightarrow> db \<Rightarrow> initiate_request \<Rightarrow> outcome" where
  "initiatePayment e d req =
     (let required = (Throw 400 ''Amount, vendor ID, booking ID, and user ID are required'', d, []);
          not_configured = (Throw 500 ''Payment accounts not configured'', d, []);
          userId = ir_user_id req
      in case ir_amount req of None \<Rightarrow> required | Some amount \<Rightarrow>
        (case ir_vendorId req of None \<Rightarrow> required | Some vendorId \<Rightarrow>
        (case ir_bookingId req of None \<Rightarrow> required | Some bookingId \<Rightarrow>
         if amount = 0 \<or> vendorId = [] \<or> bookingId = [] \<or> userId = [] then required
         else
        (case find (\<lambda>c. c_userId c = userId) (clients d) of
           None \<Rightarrow> (Throw 400 ''Client profile not found'', d, [])
         | Some client \<Rightarrow>
        (case booking_findUnique d bookingId of
           None \<Rightarrow> (Throw 404 ''Booking not found'', d, [])
         | Some booking \<Rightarrow>
         if b_clientId booking \<noteq> c_id client then
           (Throw 403 ''Unauthorized: Booking does not belong to this client'', d, [])
         else if b_service_vendor_id booking \<noteq> vendorId then
           (Throw 400 ''Vendor ID does not match the booking's vendor'', d, [])
         else
        (case find (\<lambda>v. v_id v = vendorId) (vendors d) of
           None \<Rightarrow> not_configured
         | Some vendor \<Rightarrow>
        (case v_chapaSubaccountId vendor of
           None \<Rightarrow> not_configured
         | Some subaccountId \<Rightarrow>
        (case find (\<lambda>a. sub_type a = ''ADMIN'') (chapaSubaccounts d) of
           None \<Rightarrow> not_configured
         | Some adminAccount \<Rightarrow>
         if subaccountId = [] then not_configured
         else
           let payment = created_payment e userId amount vendorId bookingId client vendor;
               d1 = d\<lparr>payments := payments d @ [payment]\<rparr>;
               tx_ref = make_tx_ref e payment;
               body = initialize_request req amount tx_ref adminAccount subaccountId;
               failed = (\<lambda>d'. (Throw 500 ''Payment initiation failed'',
                 payment_update (p_id payment) (\<lambda>p. p\<lparr>p_status := FAILED\<rparr>) d',
                 [Chapa_initialize body]));
               d2 = payment_update (p_id payment) (\<lambda>p. p\<lparr>p_transactionId := Some tx_ref\<rparr>) d1
           in (case chapa_post e body of
                 Initialize_throws \<Rightarrow> failed d1
               | Initialize_no_data \<Rightarrow> failed d2
               | Initialize_data checkout_url \<Rightarrow>
                   (Json_initiated checkout_url (p_id payment) tx_ref, d2,
                    [Chapa_initialize body]))))))))))"

subsection \<open>The notifier calls\<close>

text \<open>
  The \<^verbatim>\<open>try\<close> block around \<^verbatim>\<open>sendPaymentCompletionToVendor\<close> and
  \<^verbatim>\<open>sendNewBookingToVendor\<close> (lines 259-277 and 425-443): the second call is reached only
  when the first resolves, and a rejection of either is caught and logged. The result is
  the list of calls issued.
\<close>

definition notify_vendor :: "env \<Rightarrow> payment \<Rightarrow> booking \<Rightarrow> outbound list" where
  "notify_vendor e p b =
     (let completion = PaymentCompletionToVendor (p_id p) (b_id b) (b_service_vendor_id b)
      in if sendEmail e completion
         then [completion, NewBookingToVendor (b_id b) (b_service_vendor_id b)]
         else [completion])"

subsection \<open>verifyPayment\<close>

text \<open>
  Lines 144-308. Everything after the ownership check runs inside the \<^verbatim>\<open>try\<close> of line
  175, whose \<^verbatim>\<open>catch\<close> answers 500 and undoes nothing.
\<close>

definition verifyPayment :: "env \<Rightarrow> db \<Rightarrow> verify_request \<Rightarrow> outcome" where
  "verifyPayment e d req =
     (let required = (Throw 400 ''Payment ID and transaction reference are required'', d, [])
      in case vr_paymentId req of None \<Rightarrow> required | Some paymentId \<Rightarrow>
        (case vr_tx_ref req of None \<Rightarrow> required | Some tx_ref \<Rightarrow>
         if paymentId = [] \<or> tx_ref = [] then required
         else
        (case payment_findUnique d paymentId of
           None \<Rightarrow> (Throw 404 ''Payment not found'', d, [])
         | Some payment \<Rightarrow>
         if p_userId payment \<noteq> vr_user_id req then
           (Throw 403 ''Unauthorized: Payment does not belong to this user'', d, [])
         else
        (case chapa_get e tx_ref of
           Verify_throws \<Rightarrow>
             (Throw 500 ''Payment verification failed'', d, [Chapa_verify tx_ref])
         | Verify_returns reply_status data \<Rightarrow>
        (case reply_status of
           None \<Rightarrow> (Throw 500 ''Payment verification failed'', d, [Chapa_verify tx_ref])
         | Some status \<Rightarrow>
             let paymentStatus = verifyPayment_paymentStatus status;
                 d1 = payment_update (p_id payment)
                        (\<lambda>p. p\<lparr>p_status := paymentStatus, p_updatedAt := now e\<rparr>) d;
                 d2 = (case include_booking d payment of
                         None \<Rightarrow> d1
                       | Some booking \<Rightarrow>
                           if paymentStatus = COMPLETED \<and> b_status booking = Booking_PENDING
                           then booking_update (b_id booking) (\<lambda>b. b\<lparr>b_status := CONFIRMED\<rparr>) d1
                           else d1)
             in (case payment_findUnique d2 (p_id payment) of
                   None \<Rightarrow>
                     (Throw 500 ''Payment verification failed'', d2, [Chapa_verify tx_ref])
                 | Some updatedPayment \<Rightarrow>
                     let updatedBooking = include_booking d2 updatedPayment;
                         emails = (case updatedBooking of
                                     None \<Rightarrow> []
                                   | Some booking \<Rightarrow>
                                       if paymentStatus = COMPLETED
                                       then notify_vendor e updatedPayment booking else [])
                     in (Json_verified
                           \<lparr>vj_paymentId = p_id payment, vj_status = paymentStatus,
                            vj_amount = p_amount updatedPayment,
                            vj_createdAt = p_createdAt updatedPayment,
                            vj_updatedAt = p_updatedAt updatedPayment,
                            vj_booking = map_option (\<lambda>b. (b_id b, b_status b)) updatedBooking,
                            vj_chapaData = data\<rparr>,
                         d2, Chapa_verify tx_ref # emails)))))))"

subsection \<open>handleWebhook\<close>

text \<open>
  Lines 311-456. The whole body runs inside one \<^verbatim>\<open>try\<close>, whose \<^verbatim>\<open>catch\<close> answers 500.
  \<^verbatim>\<open>prisma.payment.findFirst({ where: { transactionId: tx_ref } })\<close> is the first row in
  scan order with that transaction reference. The row returned by the update of line 370
  includes the booking as it is before line 419 changes it.
\<close>

definition handleWebhook :: "env \<Rightarrow> db \<Rightarrow> webhook_request \<Rightarrow> outcome" where
  "handleWebhook e d req =
     (let unauthorized = (Send 401 ''Unauthorized'', d, []);
          missing = (Send 400 ''Bad Request: Missing tx_ref'', d, [])
      in case wr_chapa_signature req of None \<Rightarrow> unauthorized | Some chapaSignature \<Rightarrow>
        (case CHAPA_WEBHOOK_SECRET e of None \<Rightarrow> unauthorized | Some webhookSecret \<Rightarrow>
         if chapaSignature = [] \<or> webhookSecret = [] then unauthorized
         else if hmac_sha256_hex e webhookSecret (wr_body req) \<noteq> chapaSignature
         then unauthorized
         else
        (case wr_tx_ref req of None \<Rightarrow> missing | Some tx_ref \<Rightarrow>
         if tx_ref = [] then missing
         else
        (case find (\<lambda>p. p_transactionId p = Some tx_ref) (payments d) of
           None \<Rightarrow> (Send 404 ''Payment not found'', d, [])
         | Some payment \<Rightarrow>
        (case wr_status req of
           None \<Rightarrow> (Send 500 ''Webhook processing failed'', d, [])
         | Some status \<Rightarrow>
             let paymentStatus = handleWebhook_paymentStatus status;
                 updated = (\<lambda>p. p\<lparr>p_status := paymentStatus, p_updatedAt := now e\<rparr>);
                 d1 = payment_update (p_id payment) updated d;
                 updatedPayment = updated payment
             in (case include_booking d1 updatedPayment of
                   None \<Rightarrow> (Send 200 ''Webhook processed successfully'', d1, [])
                 | Some booking \<Rightarrow>
                     if paymentStatus = COMPLETED \<and> b_status booking = Booking_PENDING
                     then (Send 200 ''Webhook processed successfully'',
                           booking_update (b_id booking) (\<lambda>b. b\<lparr>b_status := CONFIRMED\<rparr>) d1,
                           notify_vendor e updatedPayment booking)
                     else (Send 200 ''Webhook processed successfully'', d1, [])))))))"

subsection \<open>A small world to evaluate the handlers in\<close>

text \<open>
  One client (user \<open>alice\<close>), one vendor with a payout subaccount, the admin subaccount,
  one PENDING booking and one PENDING payment for it. The gateway knows two transactions:
  the one of the payment, still pending, and an unrelated one that succeeded; it refuses
  to open checkout sessions. The mail transport accepts every message.
\<close>

definition ex_client :: client where
  "ex_client = \<lparr>c_id = ''c1'', c_userId = ''alice''\<rparr>"

definition ex_vendor :: vendor where
  "ex_vendor = \<lparr>v_id = ''v1'', v_userId = ''victor'', v_chapaSubaccountId = Some ''sub-v1''\<rparr>"

definition ex_admin :: chapaSubaccount where
  "ex_admin = \<lparr>sub_accountId = ''sub-admin'', sub_type = ''ADMIN''\<rparr>"

definition ex_booking :: booking where
  "ex_booking = \<lparr>b_id = ''b1'', b_clientId = ''c1'', b_service_vendor_id = ''v1'',
     b_status = Booking_PENDING\<rparr>"

definition ex_payment :: payment where
  "ex_payment = \<lparr>p_id = ''p1'', p_amount = 100, p_status = PENDING, p_method = ''CHAPA'',
     p_transactionId = Some ''payment-p1-x'', p_bookingId = Some ''b1'', p_userId = ''alice'',
     p_recipientId = ''victor'', p_clientId = Some ''c1'', p_vendorId = Some ''v1'',
     p_adminSplit = Some 10, p_vendorSplit = Some 90, p_createdAt = 1, p_updatedAt = 1\<rparr>"

definition ex_db :: db where
  "ex_db = \<lparr>clients = [ex_client], bookings = [ex_booking], vendors = [ex_vendor],
     chapaSubaccounts = [ex_admin], payments = [ex_payment]\<rparr>"

definition ex_env :: env where
  "ex_env = \<lparr>chapa_post = (\<lambda>body. Initialize_throws),
     chapa_get = (\<lambda>tx_ref.
        if tx_ref = ''payment-p1-x'' then Verify_returns (Some ''pending'') ''{}''
        else if tx_ref = ''payment-p9-y'' then Verify_returns (Some ''success'') ''{}''
        else Verify_throws),
     sendEmail = (\<lambda>message. True),
     now = 7, generated_id = ''p2'', uuid = ''u'',
     CHAPA_WEBHOOK_SECRET = Some ''secret'',
     hmac_sha256_hex = (\<lambda>secret text. secret @ ''/'' @ text)\<rparr>"

text \<open>The same world once the gateway has collected the payment, and once the booking is confirmed.\<close>

definition ex_env_paid :: env where
  "ex_env_paid = ex_env\<lparr>chapa_get := (\<lambda>tx_ref.
        if tx_ref = ''payment-p1-x'' then Verify_returns (Some ''success'') ''{}''
        else Verify_throws)\<rparr>"

definition ex_db_confirmed :: db where
  "ex_db_confirmed = ex_db\<lparr>bookings := [ex_booking\<lparr>b_status := CONFIRMED\<rparr>]\<rparr>"

text \<open>The world with a gateway that opens checkout sessions, and one whose vendor has no subaccount.\<close>

definition ex_env_open :: env where
  "ex_env_open = ex_env\<lparr>chapa_post := (\<lambda>body. Initialize_data (Some ''https://checkout''))\<rparr>"

definition ex_db_unconfigured :: db where
  "ex_db_unconfigured = ex_db\<lparr>vendors := [ex_vendor\<lparr>v_chapaSubaccountId := None\<rparr>]\<rparr>"

text \<open>The requests: the owner polls, and the gateway reports success by webhook.\<close>

definition ex_poll :: verify_request where
  "ex_poll = \<lparr>vr_paymentId = Some ''p1'', vr_tx_ref = Some ''payment-p1-x'',
     vr_user_id = ''alice''\<rparr>"

definition ex_webhook :: webhook_request where
  "ex_webhook = \<lparr>wr_chapa_signature = Some ''secret/{body}'', wr_payload = ''{body}'',
     wr_body = ''{body}'',
     wr_tx_ref = Some ''payment-p1-x'', wr_status = Some ''success''\<rparr>"

definition ex_initiate :: initiate_request where
  "ex_initiate = \<lparr>ir_amount = Some 13, ir_vendorId = Some ''v1'', ir_bookingId = Some ''b1'',
     ir_user_id = ''alice'', ir_user_email = ''alice@example.com''\<rparr>"

text \<open>
  The world in which the payment is already COMPLETED, a gateway that reports the
  transaction as failed, and the webhook that does the same.
\<close>

definition ex_db_completed :: db where
  "ex_db_completed = ex_db\<lparr>payments := [ex_payment\<lparr>p_status := COMPLETED\<rparr>]\<rparr>"

definition ex_env_failed :: env where
  "ex_env_failed = ex_env\<lparr>chapa_get := (\<lambda>tx_ref. Verify_returns (Some ''failed'') ''{}'')\<rparr>"

definition ex_webhook_failed :: webhook_request where
  "ex_webhook_failed = \<lparr>wr_chapa_signature = Some ''secret/{failed}'',
     wr_payload = ''{failed}'', wr_body = ''{failed}'',
     wr_tx_ref = Some ''payment-p1-x'', wr_status = Some ''failed''\<rparr>"

text \<open>
  A webhook call whose payload has a blank after the colons and the comma, signed with
  the digest of the compact text that \<^verbatim>\<open>JSON.stringify\<close> gives for its parsed body; and
  the world whose HMAC-SHA256 has the values of these two texts under the secret.
\<close>

definition ex_webhook_spaced :: webhook_request where
  \<open>ex_webhook_spaced =
     \<lparr>wr_chapa_signature =
        Some ''55d4576bd4148df130c90fbb5a194e7a1b5b2c33cc1cc2898f15ab80ef78bdac'',
      wr_payload = ''{"tx_ref": "payment-p1-x", "status": "success"}'',
      wr_body = ''{"tx_ref":"payment-p1-x","status":"success"}'',
      wr_tx_ref = Some ''payment-p1-x'', wr_status = Some ''success''\<rparr>\<close>

definition ex_env_sha :: env where
  \<open>ex_env_sha = ex_env\<lparr>hmac_sha256_hex := (\<lambda>secret text.
        if secret = ''secret'' \<and> text = ''{"tx_ref": "payment-p1-x", "status": "success"}''
        then ''6e34c5093a2c7132207ce4a1a7bc8850bcee2b9315fea3d614f7f1c37213494d''
        else if secret = ''secret'' \<and> text = ''{"tx_ref":"payment-p1-x","status":"success"}''
        then ''55d4576bd4148df130c90fbb5a194e7a1b5b2c33cc1cc2898f15ab80ef78bdac''
        else [])\<rparr>\<close>

subsection \<open>Vocabulary of the properties\<close>

text \<open>
  The booking associated with a reconciliation call whose mapped status is COMPLETED:
  the booking of the payment the call names, when the status the call obtains maps to
  COMPLETED; \<open>None\<close> for every other call.
\<close>

definition poll_completed_booking :: "env \<Rightarrow> db \<Rightarrow> verify_request \<Rightarrow> booking option" where
  "poll_completed_booking e d req =
     (case vr_paymentId req of None \<Rightarrow> None | Some paymentId \<Rightarrow>
     (case vr_tx_ref req of None \<Rightarrow> None | Some tx_ref \<Rightarrow>
     (case payment_findUnique d paymentId of None \<Rightarrow> None | Some payment \<Rightarrow>
     (case chapa_get e tx_ref of
        Verify_throws \<Rightarrow> None
      | Verify_returns reply_status data \<Rightarrow>
     (case reply_status of None \<Rightarrow> None | Some status \<Rightarrow>
        if verifyPayment_paymentStatus status = COMPLETED
        then include_booking d payment else None)))))"

definition webhook_completed_booking :: "db \<Rightarrow> webhook_request \<Rightarrow> booking option" where
  "webhook_completed_booking d req =
     (case wr_tx_ref req of None \<Rightarrow> None | Some tx_ref \<Rightarrow>
     (case find (\<lambda>p. p_transactionId p = Some tx_ref) (payments d) of
        None \<Rightarrow> None
      | Some payment \<Rightarrow>
     (case wr_status req of None \<Rightarrow> None | Some status \<Rightarrow>
        if handleWebhook_paymentStatus status = COMPLETED
        then include_booking d payment else None)))"

text \<open>
  A payment-initiation call passes every check of lines 13-60, with these values read
  from the request and the tables.
\<close>

definition passes_checks ::
  "db \<Rightarrow> initiate_request \<Rightarrow> number \<Rightarrow> string \<Rightarrow> string \<Rightarrow> client \<Rightarrow> booking \<Rightarrow> vendor \<Rightarrow>
     string \<Rightarrow> chapaSubaccount \<Rightarrow> bool" where
  "passes_checks d req amount vendorId bookingId client booking vendor subaccountId adminAccount =
     (ir_amount req = Some amount \<and> amount \<noteq> 0 \<and>
      ir_vendorId req = Some vendorId \<and> vendorId \<noteq> [] \<and>
      ir_bookingId req = Some bookingId \<and> bookingId \<noteq> [] \<and>
      ir_user_id req \<noteq> [] \<and>
      find (\<lambda>c. c_userId c = ir_user_id req) (clients d) = Some client \<and>
      booking_findUnique d bookingId = Some booking \<and>
      b_clientId booking = c_id client \<and>
      b_service_vendor_id booking = vendorId \<and>
      find (\<lambda>v. v_id v = vendorId) (vendors d) = Some vendor \<and>
      v_chapaSubaccountId vendor = Some subaccountId \<and> subaccountId \<noteq> [] \<and>
      find (\<lambda>a. sub_type a = ''ADMIN'') (chapaSubaccounts d) = Some adminAccount)"

text \<open>The vendor has a payout subaccount and the platform has its admin subaccount.\<close>

definition payout_accounts_configured :: "db \<Rightarrow> string \<Rightarrow> bool" where
  "payout_accounts_configured d vendorId =
     ((case find (\<lambda>v. v_id v = vendorId) (vendors d) of
         None \<Rightarrow> False
       | Some vendor \<Rightarrow>
           (case v_chapaSubaccountId vendor of None \<Rightarrow> False | Some s \<Rightarrow> s \<noteq> [])) \<and>
      find (\<lambda>a. sub_type a = ''ADMIN'') (chapaSubaccounts d) \<noteq> None)"

text \<open>
  A poll call that gets as far as the gateway: it carries both identifiers, names an
  existing payment and comes from the payment's owner.
\<close>

definition poll_reaches_gateway ::
  "db \<Rightarrow> verify_request \<Rightarrow> string \<Rightarrow> string \<Rightarrow> payment \<Rightarrow> bool" where
  "poll_reaches_gateway d req paymentId tx_ref payment =
     (vr_paymentId req = Some paymentId \<and> paymentId \<noteq> [] \<and>
      vr_tx_ref req = Some tx_ref \<and> tx_ref \<noteq> [] \<and>
      payment_findUnique d paymentId = Some payment \<and>
      p_userId payment = vr_user_id req)"

text \<open>
  A webhook call that is accepted: its signature is the digest of its payload under the
  configured secret, and its transaction reference is the one of a payment.
\<close>

definition webhook_accepted ::
  "env \<Rightarrow> db \<Rightarrow> webhook_request \<Rightarrow> string \<Rightarrow> payment \<Rightarrow> bool" where
  "webhook_accepted e d req tx_ref payment =
     ((case wr_chapa_signature req of
         None \<Rightarrow> False
       | Some chapaSignature \<Rightarrow>
           chapaSignature \<noteq> [] \<and>
           (case CHAPA_WEBHOOK_SECRET e of
              None \<Rightarrow> False
            | Some webhookSecret \<Rightarrow>
                webhookSecret \<noteq> [] \<and>
                hmac_sha256_hex e webhookSecret (wr_body req) = chapaSignature)) \<and>
      wr_tx_ref req = Some tx_ref \<and> tx_ref \<noteq> [] \<and>
      find (\<lambda>p. p_transactionId p = Some tx_ref) (payments d) = Some payment)"

section \<open>Properties\<close>

subsection \<open>Evaluation rules\<close>

lemma toLowerCase_eval:
  "toLowerCase [] = []"
  "toLowerCase (c # cs) = lower_char c # toLowerCase cs"
  by (simp_all add: toLowerCase_def)

lemmas string_eval = toLowerCase_eval lower_char_def char_of_eq_iff

lemmas world_eval =
  ex_client_def ex_vendor_def ex_admin_def ex_booking_def ex_payment_def ex_db_def
  ex_env_def

lemmas handler_eval =
  payment_findUnique_def booking_findUnique_def include_booking_def payment_update_def
  booking_update_def notify_vendor_def created_payment_def make_tx_ref_def
  initialize_request_def verifyPayment_paymentStatus_def handleWebhook_paymentStatus_def
  Let_def

subsection \<open>Rows, lookups and updates\<close>

lemma length_update_first [simp]: "length (update_first P f xs) = length xs"
  by (induction xs) auto

lemma update_first_changed:
  "i < length xs \<Longrightarrow> update_first P f xs ! i \<noteq> xs ! i \<Longrightarrow>
     find P xs = Some (xs ! i) \<and> update_first P f xs ! i = f (xs ! i)"
proof (induction xs arbitrary: i)
  case Nil
  then show ?case by simp
next
  case (Cons x xs)
  show ?case
  proof (cases "P x")
    case True
    with Cons.prems show ?thesis by (cases i) auto
  next
    case False
    with Cons.prems obtain j where "i = Suc j" by (cases i) auto
    with False Cons show ?thesis by auto
  qed
qed

lemma find_update_first:
  "find P xs = Some x \<Longrightarrow> P (f x) \<Longrightarrow> find P (update_first P f xs) = Some (f x)"
  by (induction xs) (auto split: if_splits)

lemma find_key_Some: "find P xs = Some x \<Longrightarrow> P x"
  by (induction xs) (auto split: if_splits)

lemma find_distinct_key:
  "distinct (map k xs) \<Longrightarrow> find Q xs = Some x \<Longrightarrow> find (\<lambda>y. k y = k x) xs = Some x"
proof (induction xs)
  case Nil
  then show ?case by simp
next
  case (Cons y ys)
  show ?case
  proof (cases "Q y")
    case True
    with Cons.prems show ?thesis by simp
  next
    case False
    with Cons.prems have f: "find Q ys = Some x" by simp
    then have "x \<in> set ys" by (induction ys) (auto split: if_splits)
    with Cons.prems have "k y \<noteq> k x" by auto
    with Cons f show ?thesis by simp
  qed
qed

lemma db_update_simps [simp]:
  "bookings (payment_update i f d) = bookings d"
  "clients (payment_update i f d) = clients d"
  "vendors (payment_update i f d) = vendors d"
  "chapaSubaccounts (payment_update i f d) = chapaSubaccounts d"
  "payments (payment_update i f d) = update_first (\<lambda>p. p_id p = i) f (payments d)"
  "payments (booking_update j g d) = payments d"
  "clients (booking_update j g d) = clients d"
  "vendors (booking_update j g d) = vendors d"
  "chapaSubaccounts (booking_update j g d) = chapaSubaccounts d"
  "bookings (booking_update j g d) = update_first (\<lambda>b. b_id b = j) g (bookings d)"
  by (simp_all add: payment_update_def booking_update_def)

lemma include_booking_payment_update [simp]:
  "include_booking (payment_update i f d) p = include_booking d p"
  by (simp add: include_booking_def booking_findUnique_def split: option.splits)

lemma include_booking_key:
  "include_booking d p = Some b \<Longrightarrow> find (\<lambda>x. b_id x = b_id b) (bookings d) = Some b"
  by (auto simp: include_booking_def booking_findUnique_def split: option.splits
      dest: find_key_Some)

subsection \<open>The status mapping\<close>

text \<open>
  C1. Whatever status string the gateway hands to the poll path or to the webhook path,
  the internal status computed from it is COMPLETED for \<open>success\<close>, FAILED for \<open>failed\<close>
  and \<open>fail\<close>, PENDING for \<open>pending\<close>, and FAILED for every other string, where the
  comparison is made on the lower-cased string.
\<close>

theorem status_mapping:
  "(toLowerCase s = ''success'' \<longrightarrow>
      verifyPayment_paymentStatus s = COMPLETED \<and> handleWebhook_paymentStatus s = COMPLETED) \<and>
   (toLowerCase s = ''failed'' \<or> toLowerCase s = ''fail'' \<longrightarrow>
      verifyPayment_paymentStatus s = FAILED \<and> handleWebhook_paymentStatus s = FAILED) \<and>
   (toLowerCase s = ''pending'' \<longrightarrow>
      verifyPayment_paymentStatus s = PENDING \<and> handleWebhook_paymentStatus s = PENDING) \<and>
   (toLowerCase s \<notin> {''success'', ''failed'', ''fail'', ''pending''} \<longrightarrow>
      verifyPayment_paymentStatus s = FAILED \<and> handleWebhook_paymentStatus s = FAILED)"
  by (simp add: verifyPayment_paymentStatus_def handleWebhook_paymentStatus_def Let_def)

theorem status_mapping_witness:
  "verifyPayment_paymentStatus ''SUCCESS'' = COMPLETED \<and>
   handleWebhook_paymentStatus ''Success'' = COMPLETED \<and>
   verifyPayment_paymentStatus ''Failed'' = FAILED \<and>
   handleWebhook_paymentStatus ''FAIL'' = FAILED \<and>
   verifyPayment_paymentStatus ''Pending'' = PENDING \<and>
   handleWebhook_paymentStatus ''pending'' = PENDING \<and>
   verifyPayment_paymentStatus ''refunded'' = FAILED \<and>
   handleWebhook_paymentStatus '''' = FAILED"
  using status_mapping [of "''SUCCESS''"] status_mapping [of "''Success''"]
    status_mapping [of "''Failed''"] status_mapping [of "''FAIL''"]
    status_mapping [of "''Pending''"] status_mapping [of "''pending''"]
    status_mapping [of "''refunded''"] status_mapping [of "''''"]
  by (simp add: string_eval)

subsection \<open>Booking confirmation\<close>

lemma verifyPayment_bookings:
  "bookings (fst (snd (verifyPayment e d req))) = bookings d \<or>
   (\<exists>booking. poll_completed_booking e d req = Some booking \<and>
      b_status booking = Booking_PENDING \<and>
      bookings (fst (snd (verifyPayment e d req))) =
        update_first (\<lambda>b. b_id b = b_id booking) (\<lambda>b. b\<lparr>b_status := CONFIRMED\<rparr>) (bookings d))"
  by (auto simp: verifyPayment_def poll_completed_booking_def Let_def
      split: option.splits verify_reply.splits)

lemma handleWebhook_bookings:
  "bookings (fst (snd (handleWebhook e d req))) = bookings d \<or>
   (\<exists>booking. webhook_completed_booking d req = Some booking \<and>
      b_status booking = Booking_PENDING \<and>
      bookings (fst (snd (handleWebhook e d req))) =
        update_first (\<lambda>b. b_id b = b_id booking) (\<lambda>b. b\<lparr>b_status := CONFIRMED\<rparr>) (bookings d))"
  by (auto simp: handleWebhook_def webhook_completed_booking_def Let_def
      include_booking_def booking_findUnique_def split: option.splits)

lemma confirm_step:
  assumes step: "bs' = bs \<or> (\<exists>booking. assoc = Some booking \<and> b_status booking = Booking_PENDING \<and>
      bs' = update_first (\<lambda>b. b_id b = b_id booking) (\<lambda>b. b\<lparr>b_status := CONFIRMED\<rparr>) bs)"
    and key: "\<And>b. assoc = Some b \<Longrightarrow> find (\<lambda>x. b_id x = b_id b) bs = Some b"
  shows "length bs' = length bs \<and>
    (\<forall>i<length bs. bs' ! i \<noteq> bs ! i \<longrightarrow>
       assoc = Some (bs ! i) \<and> b_status (bs ! i) = Booking_PENDING \<and>
       bs' ! i = (bs ! i)\<lparr>b_status := CONFIRMED\<rparr>)"
  using step
proof
  assume "bs' = bs"
  then show ?thesis by simp
next
  assume "\<exists>booking. assoc = Some booking \<and> b_status booking = Booking_PENDING \<and>
      bs' = update_first (\<lambda>b. b_id b = b_id booking) (\<lambda>b. b\<lparr>b_status := CONFIRMED\<rparr>) bs"
  then obtain b where b: "assoc = Some b" "b_status b = Booking_PENDING"
    and bs': "bs' = update_first (\<lambda>x. b_id x = b_id b) (\<lambda>b. b\<lparr>b_status := CONFIRMED\<rparr>) bs"
    by blast
  have first: "find (\<lambda>x. b_id x = b_id b) bs = Some b"
    using key b(1) by simp
  have "assoc = Some (bs ! i) \<and> b_status (bs ! i) = Booking_PENDING \<and>
       bs' ! i = (bs ! i)\<lparr>b_status := CONFIRMED\<rparr>"
    if "i < length bs" "bs' ! i \<noteq> bs ! i" for i
  proof -
    from update_first_changed [OF that(1), of "\<lambda>x. b_id x = b_id b" "\<lambda>b. b\<lparr>b_status := CONFIRMED\<rparr>"]
      that(2) bs'
    have "find (\<lambda>x. b_id x = b_id b) bs = Some (bs ! i)"
      and "bs' ! i = (bs ! i)\<lparr>b_status := CONFIRMED\<rparr>" by simp_all
    with first b show ?thesis by simp
  qed
  with bs' show ?thesis by simp
qed

text \<open>
  C2. A poll or webhook call changes no booking row except, possibly, one: the booking
  associated with the call, and only when the call's mapped status is COMPLETED and that
  booking is still PENDING; the row then becomes CONFIRMED and nothing else in it changes.
  Hence a booking that is CONFIRMED (or in any state other than PENDING) is left as it is
  by a further call that reports COMPLETED, and no other path of the two operations
  confirms a booking.
\<close>

theorem booking_confirmed_only_when_pending:
  "length (bookings (fst (snd (verifyPayment e d req)))) = length (bookings d) \<and>
   length (bookings (fst (snd (handleWebhook e d hook)))) = length (bookings d) \<and>
   (\<forall>i<length (bookings d).
      (bookings (fst (snd (verifyPayment e d req))) ! i \<noteq> bookings d ! i \<longrightarrow>
         poll_completed_booking e d req = Some (bookings d ! i) \<and>
         b_status (bookings d ! i) = Booking_PENDING \<and>
         bookings (fst (snd (verifyPayment e d req))) ! i =
           (bookings d ! i)\<lparr>b_status := CONFIRMED\<rparr>) \<and>
      (bookings (fst (snd (handleWebhook e d hook))) ! i \<noteq> bookings d ! i \<longrightarrow>
         webhook_completed_booking d hook = Some (bookings d ! i) \<and>
         b_status (bookings d ! i) = Booking_PENDING \<and>
         bookings (fst (snd (handleWebhook e d hook))) ! i =
           (bookings d ! i)\<lparr>b_status := CONFIRMED\<rparr>) \<and>
      (b_status (bookings d ! i) \<noteq> Booking_PENDING \<longrightarrow>
         bookings (fst (snd (verifyPayment e d req))) ! i = bookings d ! i \<and>
         bookings (fst (snd (handleWebhook e d hook))) ! i = bookings d ! i))"
proof -
  have poll_key: "find (\<lambda>x. b_id x = b_id b) (bookings d) = Some b"
    if "poll_completed_booking e d req = Some b" for b
    using that
    by (auto simp: poll_completed_booking_def
        split: option.splits verify_reply.splits if_splits intro: include_booking_key)
  have hook_key: "find (\<lambda>x. b_id x = b_id b) (bookings d) = Some b"
    if "webhook_completed_booking d hook = Some b" for b
    using that
    by (auto simp: webhook_completed_booking_def
        split: option.splits if_splits intro: include_booking_key)
  note poll = confirm_step [OF verifyPayment_bookings poll_key]
  note hook = confirm_step [OF handleWebhook_bookings hook_key]
  from poll hook show ?thesis by blast
qed


theorem booking_confirmed_only_when_pending_witness:
  "0 < length (bookings ex_db) \<and>
   bookings (fst (snd (verifyPayment ex_env_paid ex_db ex_poll))) ! 0 \<noteq> bookings ex_db ! 0 \<and>
   bookings (fst (snd (handleWebhook ex_env_paid ex_db ex_webhook))) ! 0 \<noteq> bookings ex_db ! 0 \<and>
   poll_completed_booking ex_env_paid ex_db ex_poll = Some ex_booking \<and>
   webhook_completed_booking ex_db ex_webhook = Some ex_booking \<and>
   bookings (fst (snd (verifyPayment ex_env_paid ex_db ex_poll))) =
     [ex_booking\<lparr>b_status := CONFIRMED\<rparr>] \<and>
   bookings (fst (snd (handleWebhook ex_env_paid ex_db ex_webhook))) =
     [ex_booking\<lparr>b_status := CONFIRMED\<rparr>] \<and>
   b_status (bookings ex_db_confirmed ! 0) \<noteq> Booking_PENDING \<and>
   bookings (fst (snd (verifyPayment ex_env_paid ex_db_confirmed ex_poll))) =
     bookings ex_db_confirmed \<and>
   bookings (fst (snd (handleWebhook ex_env_paid ex_db_confirmed ex_webhook))) =
     bookings ex_db_confirmed"
  using booking_confirmed_only_when_pending [of ex_env_paid ex_db ex_poll ex_webhook]
    booking_confirmed_only_when_pending [of ex_env_paid ex_db_confirmed ex_poll ex_webhook]
  by (simp add: verifyPayment_def handleWebhook_def world_eval ex_env_paid_def ex_db_confirmed_def ex_poll_def ex_webhook_def
      poll_completed_booking_def webhook_completed_booking_def handler_eval string_eval)

subsection \<open>Rejected calls leave the database alone\<close>

text \<open>
  C3. A poll verification call supplies a payment identifier and a transaction reference.
  When the authenticated caller's user identifier differs from the \<^verbatim>\<open>userId\<close> of the
  payment the call names, the call fails with status 403, no table is changed (neither the
  payment row nor the booking row), and no outbound call is made.
\<close>

theorem poll_by_non_owner:
  assumes "vr_paymentId req = Some paymentId" and "paymentId \<noteq> []"
    and "vr_tx_ref req = Some tx_ref" and "tx_ref \<noteq> []"
    and "payment_findUnique d paymentId = Some payment"
    and "p_userId payment \<noteq> vr_user_id req"
  shows "verifyPayment e d req =
     (Throw 403 ''Unauthorized: Payment does not belong to this user'', d, [])"
  using assms by (simp add: verifyPayment_def Let_def)

theorem poll_by_non_owner_witness:
  "vr_paymentId (ex_poll\<lparr>vr_user_id := ''mallory''\<rparr>) = Some ''p1'' \<and>
   vr_tx_ref (ex_poll\<lparr>vr_user_id := ''mallory''\<rparr>) = Some ''payment-p1-x'' \<and>
   payment_findUnique ex_db ''p1'' = Some ex_payment \<and>
   p_userId ex_payment \<noteq> vr_user_id (ex_poll\<lparr>vr_user_id := ''mallory''\<rparr>) \<and>
   verifyPayment ex_env ex_db (ex_poll\<lparr>vr_user_id := ''mallory''\<rparr>) =
     (Throw 403 ''Unauthorized: Payment does not belong to this user'', ex_db, [])"
proof -
  have 1: "vr_paymentId (ex_poll\<lparr>vr_user_id := ''mallory''\<rparr>) = Some ''p1''"
    by (simp add: ex_poll_def)
  have 2: "vr_tx_ref (ex_poll\<lparr>vr_user_id := ''mallory''\<rparr>) = Some ''payment-p1-x''"
    by (simp add: ex_poll_def)
  have 3: "payment_findUnique ex_db ''p1'' = Some ex_payment"
    by (simp add: world_eval handler_eval)
  have 4: "p_userId ex_payment \<noteq> vr_user_id (ex_poll\<lparr>vr_user_id := ''mallory''\<rparr>)"
    by (simp add: world_eval ex_poll_def)
  from poll_by_non_owner [OF 1 _ 2 _ 3 4, of ex_env] 1 2 3 4 show ?thesis
    by simp
qed

text \<open>
  C4, as stated, fails: the digest is not taken over the payload the call carries but
  over \<^verbatim>\<open>JSON.stringify(req.body)\<close>, the parsed body written out again (line 325). The
  call below carries a payload with a blank after the colons and the comma, and a header
  that is the digest of the compact text, not of the payload: it is answered 200, the
  payment becomes COMPLETED and the booking CONFIRMED.
\<close>

theorem webhook_signature_of_reserialised_body:
  \<open>CHAPA_WEBHOOK_SECRET ex_env_sha = Some ''secret'' \<and>
   wr_payload ex_webhook_spaced = ''{"tx_ref": "payment-p1-x", "status": "success"}'' \<and>
   hmac_sha256_hex ex_env_sha ''secret'' (wr_payload ex_webhook_spaced) =
     ''6e34c5093a2c7132207ce4a1a7bc8850bcee2b9315fea3d614f7f1c37213494d'' \<and>
   wr_chapa_signature ex_webhook_spaced \<noteq>
     Some (hmac_sha256_hex ex_env_sha ''secret'' (wr_payload ex_webhook_spaced)) \<and>
   handleWebhook ex_env_sha ex_db ex_webhook_spaced =
     (Send 200 ''Webhook processed successfully'',
      ex_db\<lparr>payments := [ex_payment\<lparr>p_status := COMPLETED, p_updatedAt := 7\<rparr>],
             bookings := [ex_booking\<lparr>b_status := CONFIRMED\<rparr>]\<rparr>,
      [PaymentCompletionToVendor ''p1'' ''b1'' ''v1'', NewBookingToVendor ''b1'' ''v1'']) \<and>
   statusCode (fst (handleWebhook ex_env_sha ex_db ex_webhook_spaced)) \<noteq> 401\<close>
  by (simp add: handleWebhook_def world_eval ex_env_sha_def ex_webhook_spaced_def
      handler_eval string_eval)

text \<open>
  C4, amended. A webhook call whose signature header is missing (absent or empty), or
  differs from the HMAC-SHA256 digest, under the shared secret, of
  \<^verbatim>\<open>JSON.stringify(req.body)\<close> (the parsed body written out again, not the payload as
  sent), is answered 401 and changes no table; no notifier call is made.
\<close>

theorem webhook_bad_signature:
  assumes "wr_chapa_signature req = None \<or> wr_chapa_signature req = Some [] \<or>
     (\<forall>secret. CHAPA_WEBHOOK_SECRET e = Some secret \<longrightarrow>
        wr_chapa_signature req \<noteq> Some (hmac_sha256_hex e secret (wr_body req)))"
  shows "handleWebhook e d req = (Send 401 ''Unauthorized'', d, [])"
  using assms by (auto simp: handleWebhook_def Let_def split: option.splits)

theorem webhook_bad_signature_witness:
  "wr_chapa_signature (ex_webhook\<lparr>wr_chapa_signature := None\<rparr>) = None \<and>
   handleWebhook ex_env ex_db (ex_webhook\<lparr>wr_chapa_signature := None\<rparr>) =
     (Send 401 ''Unauthorized'', ex_db, []) \<and>
   CHAPA_WEBHOOK_SECRET ex_env = Some ''secret'' \<and>
   wr_chapa_signature (ex_webhook\<lparr>wr_body := ''{tampered}''\<rparr>) \<noteq>
     Some (hmac_sha256_hex ex_env ''secret'' (wr_body (ex_webhook\<lparr>wr_body := ''{tampered}''\<rparr>))) \<and>
   handleWebhook ex_env ex_db (ex_webhook\<lparr>wr_body := ''{tampered}''\<rparr>) =
     (Send 401 ''Unauthorized'', ex_db, [])"
proof -
  have 1: "wr_chapa_signature (ex_webhook\<lparr>wr_chapa_signature := None\<rparr>) = None \<or>
     wr_chapa_signature (ex_webhook\<lparr>wr_chapa_signature := None\<rparr>) = Some [] \<or>
     (\<forall>secret. CHAPA_WEBHOOK_SECRET ex_env = Some secret \<longrightarrow>
        wr_chapa_signature (ex_webhook\<lparr>wr_chapa_signature := None\<rparr>) \<noteq>
        Some (hmac_sha256_hex ex_env secret (wr_body (ex_webhook\<lparr>wr_chapa_signature := None\<rparr>))))"
    by simp
  have 2: "wr_chapa_signature (ex_webhook\<lparr>wr_body := ''{tampered}''\<rparr>) = None \<or>
     wr_chapa_signature (ex_webhook\<lparr>wr_body := ''{tampered}''\<rparr>) = Some [] \<or>
     (\<forall>secret. CHAPA_WEBHOOK_SECRET ex_env = Some secret \<longrightarrow>
        wr_chapa_signature (ex_webhook\<lparr>wr_body := ''{tampered}''\<rparr>) \<noteq>
        Some (hmac_sha256_hex ex_env secret (wr_body (ex_webhook\<lparr>wr_body := ''{tampered}''\<rparr>))))"
    by (simp add: world_eval ex_webhook_def)
  from webhook_bad_signature [OF 1, of ex_db] webhook_bad_signature [OF 2, of ex_db]
  show ?thesis by (simp add: world_eval ex_webhook_def)
qed

subsection \<open>Payment initiation\<close>

text \<open>
  C5, as stated, fails: when the vendor or the admin has no payout subaccount the call is
  answered 500 (line 58), which is not a 4xx status.
\<close>

theorem unconfigured_payout_is_500:
  "initiatePayment ex_env ex_db_unconfigured ex_initiate =
     (Throw 500 ''Payment accounts not configured'', ex_db_unconfigured, []) \<and>
   \<not> (400 \<le> statusCode (fst (initiatePayment ex_env ex_db_unconfigured ex_initiate)) \<and>
      statusCode (fst (initiatePayment ex_env ex_db_unconfigured ex_initiate)) < 500)"
  by (simp add: initiatePayment_def world_eval ex_db_unconfigured_def ex_initiate_def handler_eval)

text \<open>
  C5, amended. A payment-initiation call with all four inputs present that fails a
  precondition check changes no table and creates no payment row, and is answered with
  the reason of the first check that fails: 400 when the caller has no client profile, 404
  when the booking does not exist, 403 when it is not the client's, 400 when its vendor is
  not the named one, and 500 when the vendor's or the admin's payout subaccount is not
  configured.
\<close>

theorem initiation_precondition_failures:
  assumes "ir_amount req = Some amount" and "amount \<noteq> 0"
    and "ir_vendorId req = Some vendorId" and "vendorId \<noteq> []"
    and "ir_bookingId req = Some bookingId" and "bookingId \<noteq> []"
    and "ir_user_id req \<noteq> []"
  shows
    "(find (\<lambda>c. c_userId c = ir_user_id req) (clients d) = None \<longrightarrow>
        initiatePayment e d req = (Throw 400 ''Client profile not found'', d, [])) \<and>
     (\<forall>client. find (\<lambda>c. c_userId c = ir_user_id req) (clients d) = Some client \<longrightarrow>
        (booking_findUnique d bookingId = None \<longrightarrow>
           initiatePayment e d req = (Throw 404 ''Booking not found'', d, [])) \<and>
        (\<forall>booking. booking_findUnique d bookingId = Some booking \<longrightarrow>
           (b_clientId booking \<noteq> c_id client \<longrightarrow>
              initiatePayment e d req =
                (Throw 403 ''Unauthorized: Booking does not belong to this client'', d, [])) \<and>
           (b_clientId booking = c_id client \<and> b_service_vendor_id booking \<noteq> vendorId \<longrightarrow>
              initiatePayment e d req =
                (Throw 400 ''Vendor ID does not match the booking's vendor'', d, [])) \<and>
           (b_clientId booking = c_id client \<and> b_service_vendor_id booking = vendorId \<and>
            \<not> payout_accounts_configured d vendorId \<longrightarrow>
              initiatePayment e d req =
                (Throw 500 ''Payment accounts not configured'', d, []))))"
  using assms
  by (auto simp: initiatePayment_def payout_accounts_configured_def Let_def
      split: option.splits)

theorem initiation_precondition_failures_witness:
  "initiatePayment ex_env ex_db (ex_initiate\<lparr>ir_user_id := ''bob''\<rparr>) =
     (Throw 400 ''Client profile not found'', ex_db, []) \<and>
   initiatePayment ex_env ex_db (ex_initiate\<lparr>ir_bookingId := Some ''b9''\<rparr>) =
     (Throw 404 ''Booking not found'', ex_db, []) \<and>
   initiatePayment ex_env (ex_db\<lparr>bookings := [ex_booking\<lparr>b_clientId := ''c2''\<rparr>]\<rparr>) ex_initiate =
     (Throw 403 ''Unauthorized: Booking does not belong to this client'',
      ex_db\<lparr>bookings := [ex_booking\<lparr>b_clientId := ''c2''\<rparr>]\<rparr>, []) \<and>
   initiatePayment ex_env (ex_db\<lparr>bookings := [ex_booking\<lparr>b_service_vendor_id := ''v2''\<rparr>]\<rparr>)
       ex_initiate =
     (Throw 400 ''Vendor ID does not match the booking's vendor'',
      ex_db\<lparr>bookings := [ex_booking\<lparr>b_service_vendor_id := ''v2''\<rparr>]\<rparr>, []) \<and>
   \<not> payout_accounts_configured ex_db_unconfigured ''v1'' \<and>
   initiatePayment ex_env ex_db_unconfigured ex_initiate =
     (Throw 500 ''Payment accounts not configured'', ex_db_unconfigured, [])"
  using
    initiation_precondition_failures
      [of "ex_initiate\<lparr>ir_user_id := ''bob''\<rparr>" 13 "''v1''" "''b1''" ex_db ex_env]
    initiation_precondition_failures
      [of "ex_initiate\<lparr>ir_bookingId := Some ''b9''\<rparr>" 13 "''v1''" "''b9''" ex_db ex_env]
    initiation_precondition_failures
      [of ex_initiate 13 "''v1''" "''b1''"
          "ex_db\<lparr>bookings := [ex_booking\<lparr>b_clientId := ''c2''\<rparr>]\<rparr>" ex_env]
    initiation_precondition_failures
      [of ex_initiate 13 "''v1''" "''b1''"
          "ex_db\<lparr>bookings := [ex_booking\<lparr>b_service_vendor_id := ''v2''\<rparr>]\<rparr>" ex_env]
    initiation_precondition_failures
      [of ex_initiate 13 "''v1''" "''b1''" ex_db_unconfigured ex_env]
  by (simp add: world_eval ex_db_unconfigured_def ex_initiate_def booking_findUnique_def payout_accounts_configured_def)

text \<open>What a call that passes the checks does, when the generated key is a new one.\<close>

lemma update_first_last:
  "\<forall>y\<in>set xs. \<not> P y \<Longrightarrow> P x \<Longrightarrow> update_first P f (xs @ [x]) = xs @ [f x]"
  by (induction xs) auto

lemma initiatePayment_after_checks:
  assumes "passes_checks d req amount vendorId bookingId client booking vendor subaccountId adminAccount"
    and "generated_id e \<notin> p_id ` set (payments d)"
  shows "initiatePayment e d req =
     (let payment = created_payment e (ir_user_id req) amount vendorId bookingId client vendor;
          tx_ref = make_tx_ref e payment;
          body = initialize_request req amount tx_ref adminAccount subaccountId
      in case chapa_post e body of
           Initialize_throws \<Rightarrow>
             (Throw 500 ''Payment initiation failed'',
              d\<lparr>payments := payments d @ [payment\<lparr>p_status := FAILED\<rparr>]\<rparr>,
              [Chapa_initialize body])
         | Initialize_no_data \<Rightarrow>
             (Throw 500 ''Payment initiation failed'',
              d\<lparr>payments := payments d @
                 [payment\<lparr>p_transactionId := Some tx_ref, p_status := FAILED\<rparr>]\<rparr>,
              [Chapa_initialize body])
         | Initialize_data checkout_url \<Rightarrow>
             (Json_initiated checkout_url (p_id payment) tx_ref,
              d\<lparr>payments := payments d @ [payment\<lparr>p_transactionId := Some tx_ref\<rparr>]\<rparr>,
              [Chapa_initialize body]))"
proof -
  have fresh: "\<forall>y\<in>set (payments d). \<not> p_id y = generated_id e"
    using assms(2) by (metis imageI)
  have id: "p_id (created_payment e u a v b c w) = generated_id e" for u a v b c w
    by (simp add: created_payment_def)
  show ?thesis
    using assms(1) fresh
    by (simp add: passes_checks_def initiatePayment_def Let_def payment_update_def id
        update_first_last split: initialize_reply.splits)
qed

lemma ex_passes_checks:
  "passes_checks ex_db ex_initiate 13 ''v1'' ''b1'' ex_client ex_booking ex_vendor ''sub-v1'' ex_admin"
  by (simp add: passes_checks_def world_eval ex_initiate_def booking_findUnique_def)

lemma ex_generated_id_fresh:
  "generated_id ex_env \<notin> p_id ` set (payments ex_db)"
  by (simp add: world_eval)

text \<open>
  C6. When a payment-initiation call has passed the checks and created the PENDING
  payment row, and the request to the gateway for a checkout session then fails, the call
  is answered 500, the row is still there with status FAILED and is otherwise as created,
  and the gateway has been asked exactly once.
\<close>

theorem checkout_failure_marks_failed:
  assumes "passes_checks d req amount vendorId bookingId client booking vendor subaccountId adminAccount"
    and "generated_id e \<notin> p_id ` set (payments d)"
    and "payment = created_payment e (ir_user_id req) amount vendorId bookingId client vendor"
    and "body = initialize_request req amount (make_tx_ref e payment) adminAccount subaccountId"
    and "chapa_post e body = Initialize_throws"
  shows "initiatePayment e d req =
     (Throw 500 ''Payment initiation failed'',
      d\<lparr>payments := payments d @ [payment\<lparr>p_status := FAILED\<rparr>]\<rparr>,
      [Chapa_initialize body])"
  using assms(3-5) by (simp add: initiatePayment_after_checks [OF assms(1,2)] Let_def)

theorem checkout_failure_marks_failed_witness:
  "passes_checks ex_db ex_initiate 13 ''v1'' ''b1'' ex_client ex_booking ex_vendor ''sub-v1'' ex_admin \<and>
   generated_id ex_env \<notin> p_id ` set (payments ex_db) \<and>
   statusCode (fst (initiatePayment ex_env ex_db ex_initiate)) = 500 \<and>
   map (\<lambda>p. (p_id p, p_status p)) (payments (fst (snd (initiatePayment ex_env ex_db ex_initiate)))) =
     [(''p1'', PENDING), (''p2'', FAILED)] \<and>
   length (snd (snd (initiatePayment ex_env ex_db ex_initiate))) = 1"
  using checkout_failure_marks_failed [OF ex_passes_checks ex_generated_id_fresh refl refl]
    ex_passes_checks ex_generated_id_fresh
  by (simp add: ex_env_def ex_db_def ex_payment_def created_payment_def)

subsection \<open>The split amounts\<close>

lemma pow2_powi: "pow2 e = 2 powi e"
  by (simp add: pow2_def power_int_def power_one_over field_simps)

lemma pow2_pos [simp]: "0 < pow2 e"
  by (simp add: pow2_powi)

lemma pow2_add: "pow2 (x + y) = pow2 x * pow2 y"
  by (simp add: pow2_powi power_int_add)

lemma pow2_diff: "pow2 (x - y) = pow2 x / pow2 y"
  by (simp add: pow2_powi power_int_diff)

lemma pow2_nat: "0 \<le> e \<Longrightarrow> pow2 e = 2 ^ nat e"
  by (simp add: pow2_def)

text \<open>Rounding to binary64 has a relative error of at most \<^verbatim>\<open>2^-53\<close> in the normal range.\<close>

lemma round_half_even_error: "\<bar>of_int (round_half_even x) - x\<bar> \<le> 1 / 2"
proof -
  have "of_int \<lfloor>x\<rfloor> \<le> x" "x < of_int \<lfloor>x\<rfloor> + 1"
    by linarith+
  then show ?thesis
    by (auto simp: round_half_even_def Let_def)
qed

lemma floor_log2_lower:
  assumes "0 < q"
  shows "pow2 (floor_log2 q) \<le> q"
proof -
  obtain n d where nd: "quotient_of q = (n, d)" by (cases "quotient_of q")
  then have d: "0 < d" and q: "q = of_int n / of_int d"
    by (auto dest: quotient_of_denom_pos quotient_of_div)
  with assms have n: "0 < n"
    by (simp add: zero_less_divide_iff)
  let ?k = "bitlen n - bitlen d"
  show ?thesis
  proof (cases "pow2 ?k \<le> q")
    case True
    then show ?thesis by (simp add: floor_log2_def nd)
  next
    case False
    have bn: "1 \<le> bitlen n" and bd: "1 \<le> bitlen d"
      using n d by (auto simp: bitlen_alt_def)
    have "(2::rat) ^ nat (bitlen n - 1) \<le> of_int n"
      using bitlen_bounds [OF n] by (metis of_int_le_iff of_int_numeral of_int_power)
    moreover have "of_int d \<le> (2::rat) ^ nat (bitlen d)"
      using bitlen_bounds [OF d] by (metis less_imp_le of_int_le_iff of_int_numeral of_int_power)
    ultimately have "(2::rat) ^ nat (bitlen n - 1) / 2 ^ nat (bitlen d) \<le> of_int n / of_int d"
      using d n by (intro frac_le) auto
    moreover have "pow2 (?k - 1) = 2 ^ nat (bitlen n - 1) / 2 ^ nat (bitlen d)"
    proof -
      have "pow2 (?k - 1) = pow2 ((bitlen n - 1) - bitlen d)" by (simp add: algebra_simps)
      also have "\<dots> = pow2 (bitlen n - 1) / pow2 (bitlen d)" by (rule pow2_diff)
      also have "\<dots> = 2 ^ nat (bitlen n - 1) / 2 ^ nat (bitlen d)"
        using bn bd by (simp add: pow2_nat)
      finally show ?thesis .
    qed
    moreover have "floor_log2 q = ?k - 1"
      using False by (simp add: floor_log2_def nd)
    ultimately show ?thesis
      by (simp add: q)
  qed
qed

lemma to_double_error:
  assumes "pow2 (- 1022) \<le> \<bar>q\<bar>"
  shows "\<bar>to_double q - q\<bar> \<le> \<bar>q\<bar> / 2 ^ 53"
proof -
  have pos: "0 < \<bar>q\<bar>"
    using assms pow2_pos [of "- 1022"] by linarith
  then have q0: "q \<noteq> 0" by simp
  define e where "e = max (floor_log2 \<bar>q\<bar>) (- 1022)"
  define ulp where "ulp = pow2 (e - 52)"
  define m where "m = round_half_even (\<bar>q\<bar> / ulp)"
  have ulp_pos: "0 < ulp" by (simp add: ulp_def)
  have e_le: "pow2 e \<le> \<bar>q\<bar>"
    using floor_log2_lower [OF pos] assms by (simp add: e_def max_def)
  have td: "to_double q = sgn q * of_int m * ulp"
    using q0 by (simp add: to_double_def Let_def e_def ulp_def m_def)
  have "\<bar>of_int m - \<bar>q\<bar> / ulp\<bar> \<le> 1 / 2"
    unfolding m_def by (rule round_half_even_error)
  then have "\<bar>of_int m - \<bar>q\<bar> / ulp\<bar> * ulp \<le> 1 / 2 * ulp"
    using ulp_pos by (intro mult_right_mono) auto
  moreover have "\<bar>of_int m * ulp - \<bar>q\<bar>\<bar> = \<bar>of_int m - \<bar>q\<bar> / ulp\<bar> * ulp"
  proof -
    have "of_int m * ulp - \<bar>q\<bar> = (of_int m - \<bar>q\<bar> / ulp) * ulp"
      using ulp_pos by (simp add: field_simps)
    then show ?thesis
      using ulp_pos by (simp add: abs_mult)
  qed
  ultimately have m_err: "\<bar>of_int m * ulp - \<bar>q\<bar>\<bar> \<le> ulp / 2"
    by simp
  have "sgn q * (of_int m * ulp - \<bar>q\<bar>) = sgn q * of_int m * ulp - sgn q * \<bar>q\<bar>"
    by (simp add: algebra_simps)
  also have "\<dots> = to_double q - q"
    by (simp add: td sgn_mult_abs)
  finally have "to_double q - q = sgn q * (of_int m * ulp - \<bar>q\<bar>)"
    by (rule sym)
  then have "\<bar>to_double q - q\<bar> = \<bar>sgn q\<bar> * \<bar>of_int m * ulp - \<bar>q\<bar>\<bar>"
    by (simp only: abs_mult)
  also have "\<dots> = \<bar>of_int m * ulp - \<bar>q\<bar>\<bar>"
    using q0 by (simp add: abs_sgn_eq)
  also note m_err
  also have "ulp / 2 = pow2 e / 2 ^ 53"
  proof -
    have "pow2 52 = 2 ^ 52" by (simp add: pow2_def)
    then show ?thesis by (simp add: ulp_def pow2_diff)
  qed
  also have "\<dots> \<le> \<bar>q\<bar> / 2 ^ 53"
    using e_le by (simp add: divide_right_mono)
  finally show ?thesis .
qed


text \<open>The two literals are the binary64 values nearest to 1/10 and 9/10.\<close>

lemma literal_values:
  "lit_0_1 = 3602879701896397 / 36028797018963968"
  "lit_0_9 = 8106479329266893 / 9007199254740992"
  by code_simp+

lemma pow2_le_1: "e \<le> 0 \<Longrightarrow> pow2 e \<le> 1"
  by (simp add: pow2_def)

lemma split_in_normal_range:
  assumes "pow2 (- 1018) \<le> \<bar>a\<bar>" and "1 / 16 \<le> c" 
  shows "pow2 (- 1022) \<le> \<bar>a * c\<bar>"
proof -
  have "pow2 (- 1022) = pow2 (- 1018 + - 4)" by simp
  also have "\<dots> = pow2 (- 1018) * (1 / 16)"
    by (simp only: pow2_add) (simp add: pow2_def)
  also have "\<dots> \<le> \<bar>a\<bar> * c"
    using assms by (intro mult_mono) auto
  also have "\<dots> = \<bar>a * c\<bar>"
    using assms(2) by (simp add: abs_mult)
  finally show ?thesis .
qed

text \<open>The products with the literals stay within a relative error of \<^verbatim>\<open>2^-52\<close>.\<close>

lemma near_product:
  fixes a c r :: rat
  assumes t: "\<bar>t - a * c\<bar> \<le> \<bar>a * c\<bar> / 2 ^ 53"
    and c: "0 \<le> c" and d: "\<bar>c - r\<bar> = k" and k: "c / 2 ^ 53 + k \<le> r / 2 ^ 52"
  shows "\<bar>t - a * r\<bar> \<le> \<bar>a\<bar> * r / 2 ^ 52"
proof -
  have "\<bar>t - a * r\<bar> \<le> \<bar>t - a * c\<bar> + \<bar>a * c - a * r\<bar>"
    by linarith
  also have "\<bar>a * c - a * r\<bar> = \<bar>a\<bar> * k"
    by (simp add: abs_mult flip: d right_diff_distrib)
  also have "\<bar>t - a * c\<bar> + \<bar>a\<bar> * k \<le> \<bar>a\<bar> * (c / 2 ^ 53) + \<bar>a\<bar> * k"
    using t c by (simp add: abs_mult)
  also have "\<dots> = \<bar>a\<bar> * (c / 2 ^ 53 + k)"
    by (simp add: distrib_left)
  also have "\<dots> \<le> \<bar>a\<bar> * (r / 2 ^ 52)"
    using k by (intro mult_left_mono) auto
  finally show ?thesis by simp
qed

lemma split_error:
  assumes "pow2 (- 1018) \<le> \<bar>a\<bar>"
  shows "\<bar>js_mul a lit_0_1 - a * (1 / 10)\<bar> \<le> \<bar>a\<bar> * (1 / 10) / 2 ^ 52"
    and "\<bar>js_mul a lit_0_9 - a * (9 / 10)\<bar> \<le> \<bar>a\<bar> * (9 / 10) / 2 ^ 52"
proof -
  have "\<bar>to_double (a * lit_0_1) - a * lit_0_1\<bar> \<le> \<bar>a * lit_0_1\<bar> / 2 ^ 53"
    by (rule to_double_error, rule split_in_normal_range [OF assms])
      (simp add: literal_values)
  then show "\<bar>js_mul a lit_0_1 - a * (1 / 10)\<bar> \<le> \<bar>a\<bar> * (1 / 10) / 2 ^ 52"
    unfolding js_mul_def
    by (rule near_product [where k = "1 / (10 * 2 ^ 54)"]) (simp_all add: literal_values)
  have "\<bar>to_double (a * lit_0_9) - a * lit_0_9\<bar> \<le> \<bar>a * lit_0_9\<bar> / 2 ^ 53"
    by (rule to_double_error, rule split_in_normal_range [OF assms])
      (simp add: literal_values)
  then show "\<bar>js_mul a lit_0_9 - a * (9 / 10)\<bar> \<le> \<bar>a\<bar> * (9 / 10) / 2 ^ 52"
    unfolding js_mul_def
    by (rule near_product [where k = "1 / (5 * 2 ^ 53)"]) (simp_all add: literal_values)
qed

lemma split_sum_error:
  assumes "pow2 (- 1018) \<le> \<bar>a\<bar>"
  shows "\<bar>js_mul a lit_0_1 + js_mul a lit_0_9 - a\<bar> \<le> \<bar>a\<bar> / 2 ^ 52"
proof -
  have "\<bar>js_mul a lit_0_1 + js_mul a lit_0_9 - a\<bar> \<le>
      \<bar>js_mul a lit_0_1 - a * (1 / 10)\<bar> + \<bar>js_mul a lit_0_9 - a * (9 / 10)\<bar>"
    by linarith
  also have "\<dots> \<le> \<bar>a\<bar> * (1 / 10) / 2 ^ 52 + \<bar>a\<bar> * (9 / 10) / 2 ^ 52"
    by (intro add_mono split_error [OF assms])
  also have "\<dots> = \<bar>a\<bar> / 2 ^ 52"
    by simp
  finally show ?thesis .
qed

lemma js_mul_13:
  "js_mul 13 lit_0_1 = 5854679515581645 / 4503599627370496"
  "js_mul 13 lit_0_9 = 6586514455029351 / 562949953421312"
  by code_simp+

text \<open>
  C9, as stated, fails: the splits are the binary64 products \<^verbatim>\<open>amount * 0.1\<close> and
  \<^verbatim>\<open>amount * 0.9\<close>. For the amount 13 a successful initiation stores
  1.3000000000000000444 and 11.700000000000001066, which are not 1.3 and 11.7 and whose
  sum is not 13, neither exactly nor after rounding the sum to binary64
  (13.000000000000002).
\<close>

theorem split_of_13_is_not_exact:
  "fst (initiatePayment ex_env_open ex_db ex_initiate) =
     Json_initiated (Some ''https://checkout'') ''p2'' ''payment-p2-u'' \<and>
   map (\<lambda>p. (p_id p, p_amount p, p_adminSplit p, p_vendorSplit p))
     (payments (fst (snd (initiatePayment ex_env_open ex_db ex_initiate)))) =
     [(''p1'', 100, Some 10, Some 90),
      (''p2'', 13, Some (5854679515581645 / 4503599627370496),
                   Some (6586514455029351 / 562949953421312))] \<and>
   (5854679515581645 / 4503599627370496 :: rat) \<noteq> 13 / 10 \<and>
   (6586514455029351 / 562949953421312 :: rat) \<noteq> 13 * 9 / 10 \<and>
   (5854679515581645 / 4503599627370496 + 6586514455029351 / 562949953421312 :: rat) \<noteq> 13 \<and>
   to_double (5854679515581645 / 4503599627370496 + 6586514455029351 / 562949953421312) \<noteq> 13"
proof -
  have rounded: "to_double (5854679515581645 / 4503599627370496 +
      6586514455029351 / 562949953421312) \<noteq> 13"
    by code_simp
  then show ?thesis
    by (simp add: initiatePayment_def world_eval ex_env_open_def ex_initiate_def handler_eval js_mul_13)
qed

text \<open>
  C9, amended. Every successful payment-initiation call creates the payment row with
  status PENDING, the requested amount, adminSplit equal to the binary64 product of the
  amount and 0.1 and vendorSplit equal to the binary64 product of the amount and 0.9; the
  row then receives the transaction reference and keeps these values. For an amount of
  magnitude at least \<^verbatim>\<open>2^-1018\<close> the two splits are within a relative error of
  \<^verbatim>\<open>2^-52\<close> of 10% and 90% of the amount, and their sum is within the same relative
  error of the amount.
\<close>

theorem initiation_creates_pending_payment:
  assumes "passes_checks d req amount vendorId bookingId client booking vendor subaccountId adminAccount"
    and "generated_id e \<notin> p_id ` set (payments d)"
    and "payment = created_payment e (ir_user_id req) amount vendorId bookingId client vendor"
    and "body = initialize_request req amount (make_tx_ref e payment) adminAccount subaccountId"
    and "chapa_post e body = Initialize_data checkout_url"
  shows "initiatePayment e d req =
     (Json_initiated checkout_url (generated_id e) (make_tx_ref e payment),
      d\<lparr>payments := payments d @ [payment\<lparr>p_transactionId := Some (make_tx_ref e payment)\<rparr>]\<rparr>,
      [Chapa_initialize body]) \<and>
     p_status payment = PENDING \<and> p_amount payment = amount \<and>
     p_adminSplit payment = Some (js_mul amount lit_0_1) \<and>
     p_vendorSplit payment = Some (js_mul amount lit_0_9) \<and>
     (pow2 (- 1018) \<le> \<bar>amount\<bar> \<longrightarrow>
        \<bar>js_mul amount lit_0_1 - amount * (1 / 10)\<bar> \<le> \<bar>amount\<bar> * (1 / 10) / 2 ^ 52 \<and>
        \<bar>js_mul amount lit_0_9 - amount * (9 / 10)\<bar> \<le> \<bar>amount\<bar> * (9 / 10) / 2 ^ 52 \<and>
        \<bar>js_mul amount lit_0_1 + js_mul amount lit_0_9 - amount\<bar> \<le> \<bar>amount\<bar> / 2 ^ 52)"
proof -
  have "initiatePayment e d req =
     (Json_initiated checkout_url (generated_id e) (make_tx_ref e payment),
      d\<lparr>payments := payments d @ [payment\<lparr>p_transactionId := Some (make_tx_ref e payment)\<rparr>]\<rparr>,
      [Chapa_initialize body]) \<and>
     p_status payment = PENDING \<and> p_amount payment = amount \<and>
     p_adminSplit payment = Some (js_mul amount lit_0_1) \<and>
     p_vendorSplit payment = Some (js_mul amount lit_0_9)"
    using assms(3-5)
    by (simp add: initiatePayment_after_checks [OF assms(1,2)] Let_def created_payment_def)
  then show ?thesis
    using split_error [of amount] split_sum_error [of amount] by blast
qed

theorem initiation_creates_pending_payment_witness:
  "passes_checks ex_db ex_initiate 13 ''v1'' ''b1'' ex_client ex_booking ex_vendor ''sub-v1'' ex_admin \<and>
   generated_id ex_env_open \<notin> p_id ` set (payments ex_db) \<and>
   fst (initiatePayment ex_env_open ex_db ex_initiate) =
     Json_initiated (Some ''https://checkout'') ''p2'' ''payment-p2-u'' \<and>
   map (\<lambda>p. (p_id p, p_status p, p_adminSplit p, p_vendorSplit p))
     (payments (fst (snd (initiatePayment ex_env_open ex_db ex_initiate)))) =
     [(''p1'', PENDING, Some 10, Some 90),
      (''p2'', PENDING, Some (js_mul 13 lit_0_1), Some (js_mul 13 lit_0_9))] \<and>
   pow2 (- 1018) \<le> \<bar>13\<bar> \<and>
   \<bar>js_mul 13 lit_0_1 + js_mul 13 lit_0_9 - 13\<bar> \<le> 13 / 2 ^ 52"
proof -
  have small: "pow2 (- 1018) \<le> \<bar>13\<bar>"
    using pow2_le_1 [of "- 1018"] by simp
  have fresh: "generated_id ex_env_open \<notin> p_id ` set (payments ex_db)"
    by (simp add: world_eval ex_env_open_def)
  from small initiation_creates_pending_payment
      [OF ex_passes_checks fresh refl refl, of "Some ''https://checkout''"]
    ex_passes_checks fresh
  show ?thesis
    by (simp add: ex_env_open_def ex_env_def ex_db_def ex_payment_def created_payment_def
        make_tx_ref_def)
qed

subsection \<open>Reconciliation\<close>

lemma payment_findUnique_updated:
  assumes "payment_findUnique d i = Some p" and "p_id (f p) = p_id p"
  shows "payment_findUnique (payment_update i f d) i = Some (f p)"
proof -
  from assms(1) have "p_id p = i"
    by (auto simp: payment_findUnique_def dest: find_key_Some)
  with assms show ?thesis
    by (simp add: payment_findUnique_def find_update_first)
qed

lemma payment_findUnique_booking_update [simp]:
  "payment_findUnique (booking_update j g d) i = payment_findUnique d i"
  by (simp add: payment_findUnique_def)

lemma include_booking_same_bookingId:
  "p_bookingId q = p_bookingId p \<Longrightarrow> include_booking d q = include_booking d p"
  by (simp add: include_booking_def)

lemma include_booking_updated:
  assumes "include_booking d p = Some b" and "b_id (g b) = b_id b"
  shows "include_booking (booking_update (b_id b) g d) p = Some (g b)"
proof -
  from assms(1) obtain i where i: "p_bookingId p = Some i"
    and f: "find (\<lambda>x. b_id x = i) (bookings d) = Some b"
    by (auto simp: include_booking_def booking_findUnique_def split: option.splits)
  from f have "b_id b = i" by (auto dest: find_key_Some)
  with i f assms(2) show ?thesis
    by (simp add: include_booking_def booking_findUnique_def find_update_first)
qed

text \<open>What a poll does once it has reached the gateway and the gateway has answered with a status.\<close>

lemma verifyPayment_reconciles:
  assumes reach: "poll_reaches_gateway d req paymentId tx_ref payment"
    and reply: "chapa_get e tx_ref = Verify_returns (Some status) data"
  shows "verifyPayment e d req =
     (let paymentStatus = verifyPayment_paymentStatus status;
          updatedPayment = payment\<lparr>p_status := paymentStatus, p_updatedAt := now e\<rparr>;
          d1 = payment_update paymentId
                 (\<lambda>p. p\<lparr>p_status := paymentStatus, p_updatedAt := now e\<rparr>) d
      in case include_booking d payment of
           None \<Rightarrow>
             (Json_verified
                \<lparr>vj_paymentId = paymentId, vj_status = paymentStatus,
                 vj_amount = p_amount payment, vj_createdAt = p_createdAt payment,
                 vj_updatedAt = now e, vj_booking = None, vj_chapaData = data\<rparr>,
              d1, [Chapa_verify tx_ref])
         | Some booking \<Rightarrow>
             let confirm = (paymentStatus = COMPLETED \<and> b_status booking = Booking_PENDING);
                 updatedBooking = (if confirm then booking\<lparr>b_status := CONFIRMED\<rparr> else booking)
             in (Json_verified
                   \<lparr>vj_paymentId = paymentId, vj_status = paymentStatus,
                    vj_amount = p_amount payment, vj_createdAt = p_createdAt payment,
                    vj_updatedAt = now e,
                    vj_booking = Some (b_id booking, b_status updatedBooking),
                    vj_chapaData = data\<rparr>,
                 if confirm
                 then booking_update (b_id booking) (\<lambda>b. b\<lparr>b_status := CONFIRMED\<rparr>) d1
                 else d1,
                 Chapa_verify tx_ref #
                   (if paymentStatus = COMPLETED
                    then notify_vendor e updatedPayment updatedBooking else [])))"
proof -
  from reach have found: "payment_findUnique d paymentId = Some payment"
    and req: "vr_paymentId req = Some paymentId" "paymentId \<noteq> []"
      "vr_tx_ref req = Some tx_ref" "tx_ref \<noteq> []" "p_userId payment = vr_user_id req"
    by (simp_all add: poll_reaches_gateway_def)
  from found have pid: "p_id payment = paymentId"
    by (auto simp: payment_findUnique_def dest: find_key_Some)
  have upd: "payment_findUnique
      (payment_update paymentId (\<lambda>p. p\<lparr>p_status := s, p_updatedAt := t\<rparr>) d) paymentId =
      Some (payment\<lparr>p_status := s, p_updatedAt := t\<rparr>)" for s t
    using found by (rule payment_findUnique_updated) simp
  have inc: "include_booking d' (payment\<lparr>p_status := s, p_updatedAt := t\<rparr>) =
      include_booking d' payment" for d' s t
    by (rule include_booking_same_bookingId) simp
  show ?thesis
  proof (cases "include_booking d payment")
    case None
    with req found reply pid upd inc show ?thesis
      by (simp add: verifyPayment_def Let_def)
  next
    case (Some booking)
    have conf: "include_booking
        (booking_update (b_id booking) (\<lambda>b. b\<lparr>b_status := CONFIRMED\<rparr>) d) payment =
        Some (booking\<lparr>b_status := CONFIRMED\<rparr>)"
      using Some by (rule include_booking_updated) simp
    have comm: "include_booking (booking_update (b_id booking) g (payment_update i f d)) payment =
        include_booking (booking_update (b_id booking) g d) payment" for g i f
      by (simp add: include_booking_def booking_findUnique_def split: option.splits)
    from req found reply pid upd inc Some conf comm show ?thesis
      by (simp add: verifyPayment_def Let_def notify_vendor_def)
  qed
qed


text \<open>What an accepted webhook call that carries a status does.\<close>

lemma handleWebhook_reconciles:
  assumes "webhook_accepted e d req tx_ref payment" and "wr_status req = Some status"
  shows "handleWebhook e d req =
     (let paymentStatus = handleWebhook_paymentStatus status;
          updated = (\<lambda>p. p\<lparr>p_status := paymentStatus, p_updatedAt := now e\<rparr>);
          d1 = payment_update (p_id payment) updated d
      in case include_booking d payment of
           None \<Rightarrow> (Send 200 ''Webhook processed successfully'', d1, [])
         | Some booking \<Rightarrow>
             if paymentStatus = COMPLETED \<and> b_status booking = Booking_PENDING
             then (Send 200 ''Webhook processed successfully'',
                   booking_update (b_id booking) (\<lambda>b. b\<lparr>b_status := CONFIRMED\<rparr>) d1,
                   notify_vendor e (updated payment) booking)
             else (Send 200 ''Webhook processed successfully'', d1, []))"
proof -
  have inc: "include_booking d' (payment\<lparr>p_status := s, p_updatedAt := t\<rparr>) =
      include_booking d' payment" for d' s t
    by (rule include_booking_same_bookingId) simp
  from assms show ?thesis
    by (auto simp: handleWebhook_def webhook_accepted_def Let_def inc
        split: option.splits)
qed

lemma sendEmail_irrelevant:
  "fst (verifyPayment (e\<lparr>sendEmail := mail\<rparr>) d req) = fst (verifyPayment e d req)"
  "fst (snd (verifyPayment (e\<lparr>sendEmail := mail\<rparr>) d req)) = fst (snd (verifyPayment e d req))"
  "fst (handleWebhook (e\<lparr>sendEmail := mail\<rparr>) d hook) = fst (handleWebhook e d hook)"
  "fst (snd (handleWebhook (e\<lparr>sendEmail := mail\<rparr>) d hook)) = fst (snd (handleWebhook e d hook))"
  by (simp_all add: verifyPayment_def handleWebhook_def Let_def
      split: option.splits verify_reply.splits)


text \<open>
  C7. Every poll or webhook call that obtains a gateway status writes the mapped status
  and the current time as \<^verbatim>\<open>updatedAt\<close> to the payment row, whatever the row's status was
  and also when the status does not change; no other payment row changes. In particular a
  COMPLETED payment becomes FAILED when a later call reports a failed status.
\<close>

theorem status_written_unconditionally:
  "(poll_reaches_gateway d req paymentId tx_ref payment \<and>
    chapa_get e tx_ref = Verify_returns (Some status) data \<longrightarrow>
      payments (fst (snd (verifyPayment e d req))) =
        update_first (\<lambda>p. p_id p = paymentId)
          (\<lambda>p. p\<lparr>p_status := verifyPayment_paymentStatus status, p_updatedAt := now e\<rparr>)
          (payments d) \<and>
      payment_findUnique (fst (snd (verifyPayment e d req))) paymentId =
        Some (payment\<lparr>p_status := verifyPayment_paymentStatus status, p_updatedAt := now e\<rparr>)) \<and>
   (webhook_accepted e d hook hook_ref hook_payment \<and> wr_status hook = Some hook_status \<longrightarrow>
      payments (fst (snd (handleWebhook e d hook))) =
        update_first (\<lambda>p. p_id p = p_id hook_payment)
          (\<lambda>p. p\<lparr>p_status := handleWebhook_paymentStatus hook_status, p_updatedAt := now e\<rparr>)
          (payments d) \<and>
      (distinct (map p_id (payments d)) \<longrightarrow>
         payment_findUnique (fst (snd (handleWebhook e d hook))) (p_id hook_payment) =
           Some (hook_payment\<lparr>p_status := handleWebhook_paymentStatus hook_status,
                   p_updatedAt := now e\<rparr>)))"
proof (intro conjI impI; (elim conjE)?)
  assume reach: "poll_reaches_gateway d req paymentId tx_ref payment"
    and reply: "chapa_get e tx_ref = Verify_returns (Some status) data"
  note r = verifyPayment_reconciles [OF reach reply]
  show "payments (fst (snd (verifyPayment e d req))) =
        update_first (\<lambda>p. p_id p = paymentId)
          (\<lambda>p. p\<lparr>p_status := verifyPayment_paymentStatus status, p_updatedAt := now e\<rparr>)
          (payments d)"
    by (simp add: r Let_def split: option.splits)
  from reach have found: "payment_findUnique d paymentId = Some payment"
    by (simp add: poll_reaches_gateway_def)
  have "payment_findUnique (payment_update paymentId
          (\<lambda>p. p\<lparr>p_status := s, p_updatedAt := t\<rparr>) d) paymentId =
        Some (payment\<lparr>p_status := s, p_updatedAt := t\<rparr>)" for s t
    using found by (rule payment_findUnique_updated) simp
  then show "payment_findUnique (fst (snd (verifyPayment e d req))) paymentId =
        Some (payment\<lparr>p_status := verifyPayment_paymentStatus status, p_updatedAt := now e\<rparr>)"
    by (simp add: r Let_def split: option.splits)
next
  assume acc: "webhook_accepted e d hook hook_ref hook_payment"
    and st: "wr_status hook = Some hook_status"
  note r = handleWebhook_reconciles [OF acc st]
  show "payments (fst (snd (handleWebhook e d hook))) =
        update_first (\<lambda>p. p_id p = p_id hook_payment)
          (\<lambda>p. p\<lparr>p_status := handleWebhook_paymentStatus hook_status, p_updatedAt := now e\<rparr>)
          (payments d)"
    by (simp add: r Let_def split: option.splits)
  assume pk: "distinct (map p_id (payments d))"
  from acc have "find (\<lambda>p. p_transactionId p = Some hook_ref) (payments d) = Some hook_payment"
    by (simp add: webhook_accepted_def)
  with pk have "payment_findUnique d (p_id hook_payment) = Some hook_payment"
    unfolding payment_findUnique_def by (rule find_distinct_key)
  then have "payment_findUnique (payment_update (p_id hook_payment)
          (\<lambda>p. p\<lparr>p_status := s, p_updatedAt := t\<rparr>) d) (p_id hook_payment) =
        Some (hook_payment\<lparr>p_status := s, p_updatedAt := t\<rparr>)" for s t
    by (rule payment_findUnique_updated) simp
  then show "payment_findUnique (fst (snd (handleWebhook e d hook))) (p_id hook_payment) =
        Some (hook_payment\<lparr>p_status := handleWebhook_paymentStatus hook_status,
                p_updatedAt := now e\<rparr>)"
    by (simp add: r Let_def split: option.splits)
qed


theorem status_written_unconditionally_witness:
  "poll_reaches_gateway ex_db_completed ex_poll ''p1'' ''payment-p1-x''
     (ex_payment\<lparr>p_status := COMPLETED\<rparr>) \<and>
   chapa_get ex_env_failed ''payment-p1-x'' = Verify_returns (Some ''failed'') ''{}'' \<and>
   payment_findUnique (fst (snd (verifyPayment ex_env_failed ex_db_completed ex_poll))) ''p1'' =
     Some (ex_payment\<lparr>p_status := FAILED, p_updatedAt := 7\<rparr>) \<and>
   webhook_accepted ex_env_failed ex_db_completed ex_webhook_failed ''payment-p1-x''
     (ex_payment\<lparr>p_status := COMPLETED\<rparr>) \<and>
   wr_status ex_webhook_failed = Some ''failed'' \<and>
   distinct (map p_id (payments ex_db_completed)) \<and>
   payment_findUnique (fst (snd (handleWebhook ex_env_failed ex_db_completed ex_webhook_failed)))
       ''p1'' =
     Some (ex_payment\<lparr>p_status := FAILED, p_updatedAt := 7\<rparr>)"
  using status_written_unconditionally
    [where d = ex_db_completed and req = ex_poll and paymentId = "''p1''"
       and tx_ref = "''payment-p1-x''" and payment = "ex_payment\<lparr>p_status := COMPLETED\<rparr>"
       and e = ex_env_failed and status = "''failed''" and data = "''{}''"
       and hook = ex_webhook_failed and hook_ref = "''payment-p1-x''"
       and hook_payment = "ex_payment\<lparr>p_status := COMPLETED\<rparr>"
       and hook_status = "''failed''"]
  by (simp add: poll_reaches_gateway_def webhook_accepted_def world_eval ex_db_completed_def ex_env_failed_def ex_webhook_failed_def
      ex_poll_def handler_eval
      string_eval)

text \<open>
  C10. The poll path never compares the transaction reference of the call with the one
  stored on the payment: when the owner of a payment polls with a reference that is not the
  payment's, the status the gateway reports for that reference is mapped and written onto
  the payment, and the call succeeds. In the example the payment's own transaction is
  still pending at the gateway, and the payment becomes COMPLETED.
\<close>

theorem poll_with_foreign_tx_ref:
  assumes "poll_reaches_gateway d req paymentId tx_ref payment"
    and "p_transactionId payment \<noteq> Some tx_ref"
    and "chapa_get e tx_ref = Verify_returns (Some status) data"
  shows "payment_findUnique (fst (snd (verifyPayment e d req))) paymentId =
       Some (payment\<lparr>p_status := verifyPayment_paymentStatus status, p_updatedAt := now e\<rparr>) \<and>
     statusCode (fst (verifyPayment e d req)) = 200"
proof -
  note r = verifyPayment_reconciles [OF assms(1,3)]
  from assms(1) have found: "payment_findUnique d paymentId = Some payment"
    by (simp add: poll_reaches_gateway_def)
  have "payment_findUnique (payment_update paymentId
          (\<lambda>p. p\<lparr>p_status := s, p_updatedAt := t\<rparr>) d) paymentId =
        Some (payment\<lparr>p_status := s, p_updatedAt := t\<rparr>)" for s t
    using found by (rule payment_findUnique_updated) simp
  then show ?thesis
    by (simp add: r Let_def split: option.splits)
qed

theorem poll_with_foreign_tx_ref_witness:
  "poll_reaches_gateway ex_db (ex_poll\<lparr>vr_tx_ref := Some ''payment-p9-y''\<rparr>)
     ''p1'' ''payment-p9-y'' ex_payment \<and>
   p_transactionId ex_payment = Some ''payment-p1-x'' \<and>
   chapa_get ex_env ''payment-p1-x'' = Verify_returns (Some ''pending'') ''{}'' \<and>
   chapa_get ex_env ''payment-p9-y'' = Verify_returns (Some ''success'') ''{}'' \<and>
   payment_findUnique
     (fst (snd (verifyPayment ex_env ex_db (ex_poll\<lparr>vr_tx_ref := Some ''payment-p9-y''\<rparr>))))
     ''p1'' = Some (ex_payment\<lparr>p_status := COMPLETED, p_updatedAt := 7\<rparr>) \<and>
   statusCode (fst (verifyPayment ex_env ex_db (ex_poll\<lparr>vr_tx_ref := Some ''payment-p9-y''\<rparr>)))
     = 200"
  using poll_with_foreign_tx_ref
    [where d = ex_db and req = "ex_poll\<lparr>vr_tx_ref := Some ''payment-p9-y''\<rparr>"
       and paymentId = "''p1''" and tx_ref = "''payment-p9-y''" and payment = ex_payment
       and e = ex_env and status = "''success''" and data = "''{}''"]
  by (simp add: poll_reaches_gateway_def world_eval ex_poll_def handler_eval string_eval)

subsection \<open>Notifications\<close>

text \<open>
  C8. On every poll or webhook call whose mapped status is COMPLETED the notifier is to
  be invoked twice. The webhook path does not do so: its two notifier calls (lines
  427-437) sit inside the branch that confirms the booking, so a webhook call whose
  mapped status is COMPLETED makes no notifier call when the booking is no longer
  PENDING. With the booking already CONFIRMED, the webhook reporting \<open>success\<close> makes no
  notifier call, while the poll path, in the same state and with the gateway reporting
  \<open>success\<close>, makes both.
\<close>

theorem webhook_completed_without_notification:
  "webhook_accepted ex_env ex_db_confirmed ex_webhook ''payment-p1-x'' ex_payment \<and>
   wr_status ex_webhook = Some ''success'' \<and>
   handleWebhook_paymentStatus ''success'' = COMPLETED \<and>
   handleWebhook ex_env ex_db_confirmed ex_webhook =
     (Send 200 ''Webhook processed successfully'',
      ex_db_confirmed\<lparr>payments := [ex_payment\<lparr>p_status := COMPLETED, p_updatedAt := 7\<rparr>]\<rparr>,
      []) \<and>
   snd (snd (verifyPayment ex_env_paid ex_db_confirmed ex_poll)) =
     [Chapa_verify ''payment-p1-x'', PaymentCompletionToVendor ''p1'' ''b1'' ''v1'',
      NewBookingToVendor ''b1'' ''v1'']"
  by (simp add: handleWebhook_def verifyPayment_def webhook_accepted_def world_eval
      ex_db_confirmed_def ex_webhook_def ex_env_paid_def ex_poll_def handler_eval string_eval)

text \<open>
  The notifier calls where they are made: on a poll call whose mapped status is COMPLETED
  and whose payment has a booking, and on a webhook call whose mapped status is COMPLETED
  and whose booking is still PENDING, the payment-completion message goes out first and
  the new-booking message follows when the first call did not fail. Whether the notifier
  calls fail or not changes neither the response nor the tables.
\<close>

lemma notifier_calls:
  "(poll_reaches_gateway d req paymentId tx_ref payment \<and>
    chapa_get e tx_ref = Verify_returns (Some status) data \<and>
    verifyPayment_paymentStatus status = COMPLETED \<and>
    include_booking d payment = Some booking \<longrightarrow>
      snd (snd (verifyPayment e d req)) =
        Chapa_verify tx_ref #
        PaymentCompletionToVendor paymentId (b_id booking) (b_service_vendor_id booking) #
        (if sendEmail e
              (PaymentCompletionToVendor paymentId (b_id booking) (b_service_vendor_id booking))
         then [NewBookingToVendor (b_id booking) (b_service_vendor_id booking)] else [])) \<and>
   (webhook_accepted e d hook hook_ref hook_payment \<and>
    wr_status hook = Some hook_status \<and>
    handleWebhook_paymentStatus hook_status = COMPLETED \<and>
    include_booking d hook_payment = Some hook_booking \<and>
    b_status hook_booking = Booking_PENDING \<longrightarrow>
      snd (snd (handleWebhook e d hook)) =
        PaymentCompletionToVendor (p_id hook_payment) (b_id hook_booking)
          (b_service_vendor_id hook_booking) #
        (if sendEmail e
              (PaymentCompletionToVendor (p_id hook_payment) (b_id hook_booking)
                 (b_service_vendor_id hook_booking))
         then [NewBookingToVendor (b_id hook_booking) (b_service_vendor_id hook_booking)]
         else [])) \<and>
   fst (verifyPayment (e\<lparr>sendEmail := mail\<rparr>) d req) = fst (verifyPayment e d req) \<and>
   fst (snd (verifyPayment (e\<lparr>sendEmail := mail\<rparr>) d req)) = fst (snd (verifyPayment e d req)) \<and>
   fst (handleWebhook (e\<lparr>sendEmail := mail\<rparr>) d hook) = fst (handleWebhook e d hook) \<and>
   fst (snd (handleWebhook (e\<lparr>sendEmail := mail\<rparr>) d hook)) = fst (snd (handleWebhook e d hook))"
proof (intro conjI impI; (elim conjE)?)
  assume reach: "poll_reaches_gateway d req paymentId tx_ref payment"
    and reply: "chapa_get e tx_ref = Verify_returns (Some status) data"
    and completed: "verifyPayment_paymentStatus status = COMPLETED"
    and booking: "include_booking d payment = Some booking"
  from reach have "p_id payment = paymentId"
    by (auto simp: poll_reaches_gateway_def payment_findUnique_def dest: find_key_Some)
  with completed booking
  show "snd (snd (verifyPayment e d req)) =
        Chapa_verify tx_ref #
        PaymentCompletionToVendor paymentId (b_id booking) (b_service_vendor_id booking) #
        (if sendEmail e
              (PaymentCompletionToVendor paymentId (b_id booking) (b_service_vendor_id booking))
         then [NewBookingToVendor (b_id booking) (b_service_vendor_id booking)] else [])"
    by (simp add: verifyPayment_reconciles [OF reach reply] Let_def notify_vendor_def)
next
  assume acc: "webhook_accepted e d hook hook_ref hook_payment"
    and st: "wr_status hook = Some hook_status"
    and completed: "handleWebhook_paymentStatus hook_status = COMPLETED"
    and booking: "include_booking d hook_payment = Some hook_booking"
    and pending: "b_status hook_booking = Booking_PENDING"
  from completed booking pending
  show "snd (snd (handleWebhook e d hook)) =
        PaymentCompletionToVendor (p_id hook_payment) (b_id hook_booking)
          (b_service_vendor_id hook_booking) #
        (if sendEmail e
              (PaymentCompletionToVendor (p_id hook_payment) (b_id hook_booking)
                 (b_service_vendor_id hook_booking))
         then [NewBookingToVendor (b_id hook_booking) (b_service_vendor_id hook_booking)]
         else [])"
    by (simp add: handleWebhook_reconciles [OF acc st] Let_def notify_vendor_def)
qed (simp_all add: sendEmail_irrelevant)

lemma notifier_calls_example:
  "poll_reaches_gateway ex_db ex_poll ''p1'' ''payment-p1-x'' ex_payment \<and>
   include_booking ex_db ex_payment = Some ex_booking \<and>
   snd (snd (verifyPayment ex_env_paid ex_db ex_poll)) =
     [Chapa_verify ''payment-p1-x'', PaymentCompletionToVendor ''p1'' ''b1'' ''v1'',
      NewBookingToVendor ''b1'' ''v1''] \<and>
   snd (snd (verifyPayment (ex_env_paid\<lparr>sendEmail := (\<lambda>message. False)\<rparr>) ex_db ex_poll)) =
     [Chapa_verify ''payment-p1-x'', PaymentCompletionToVendor ''p1'' ''b1'' ''v1''] \<and>
   fst (verifyPayment (ex_env_paid\<lparr>sendEmail := (\<lambda>message. False)\<rparr>) ex_db ex_poll) =
     fst (verifyPayment ex_env_paid ex_db ex_poll) \<and>
   fst (snd (verifyPayment (ex_env_paid\<lparr>sendEmail := (\<lambda>message. False)\<rparr>) ex_db ex_poll)) =
     fst (snd (verifyPayment ex_env_paid ex_db ex_poll)) \<and>
   webhook_accepted ex_env_paid ex_db ex_webhook ''payment-p1-x'' ex_payment \<and>
   snd (snd (handleWebhook ex_env_paid ex_db ex_webhook)) =
     [PaymentCompletionToVendor ''p1'' ''b1'' ''v1'', NewBookingToVendor ''b1'' ''v1''] \<and>
   statusCode (fst (handleWebhook (ex_env_paid\<lparr>sendEmail := (\<lambda>message. False)\<rparr>) ex_db ex_webhook))
     = 200"
  using notifier_calls
    [where d = ex_db and req = ex_poll and paymentId = "''p1''"
       and tx_ref = "''payment-p1-x''" and payment = ex_payment
       and e = ex_env_paid and status = "''success''" and data = "''{}''"
       and booking = ex_booking
       and hook = ex_webhook and hook_ref = "''payment-p1-x''"
       and hook_payment = ex_payment and hook_status = "''success''"
       and hook_booking = ex_booking and mail = "\<lambda>message. False"]
    notifier_calls
    [where d = ex_db and req = ex_poll and paymentId = "''p1''"
       and tx_ref = "''payment-p1-x''" and payment = ex_payment
       and e = "ex_env_paid\<lparr>sendEmail := (\<lambda>message. False)\<rparr>"
       and status = "''success''" and data = "''{}''"
       and booking = ex_booking
       and hook = ex_webhook and hook_ref = "''payment-p1-x''"
       and hook_payment = ex_payment and hook_status = "''success''"
       and hook_booking = ex_booking and mail = "\<lambda>message. False"]
  by (simp add: poll_reaches_gateway_def webhook_accepted_def world_eval ex_env_paid_def ex_poll_def ex_webhook_def handler_eval
      string_eval handleWebhook_def)

end
